theory Spec2Isabelle
  imports Main "HOL-Library.Char_ord" "HOL-Library.List_Lexorder" "HOL-Library.Multiset"
begin

section \<open>JavaScript values\<close>

text \<open>
  The functions of \<^verbatim>\<open>util.js\<close> are dynamically typed: \<^verbatim>\<open>migrateOptions\<close> looks at
  \<^verbatim>\<open>typeof options\<close>, \<^verbatim>\<open>toBooleanMap\<close> at \<^verbatim>\<open>Array.isArray(keys)\<close>, and so on. The
  values they inspect are modelled by one datatype. A property key is a string or the
  module's own symbol \<^verbatim>\<open>ESLintKey = Symbol('ESLint')\<close>.

  An object is the map of its properties. The objects handled here are plain records
  (option bags, configuration objects, formatter objects): every property is an own,
  enumerable data property, so reading a property, \<^verbatim>\<open>hasOwn\<close> and spreading all see the
  same keys; none of the names read below is defined by \<^verbatim>\<open>Object.prototype\<close>. A property
  may be present with the value \<^verbatim>\<open>undefined\<close> (\<open>Some JUndefined\<close>); reading an absent
  property gives \<^verbatim>\<open>undefined\<close> as well. The order of the keys of an object is not
  modelled. Numbers are integers (no NaN, no fractions). A string is the list of its
  code units, each a \<open>char\<close>. A function value is opaque:
  \<open>JFun n\<close> is the function with identity \<open>n\<close>, without properties of its own.
\<close>

datatype pkey = Name string | ESLintKey

datatype jsval =
    JUndefined
  | JNull
  | JBool bool
  | JNum int
  | JStr string
  | JArr "jsval list"
  | JObj "pkey \<Rightarrow> jsval option"
  | JFun nat

type_synonym props = "pkey \<Rightarrow> jsval option"

text \<open>Truthiness (\<^verbatim>\<open>!!v\<close>, \<^verbatim>\<open>v && ...\<close>, \<^verbatim>\<open>v || ...\<close>).\<close>

fun truthy :: "jsval \<Rightarrow> bool" where
  "truthy JUndefined = False"
| "truthy JNull = False"
| "truthy (JBool b) = b"
| "truthy (JNum n) = (n \<noteq> 0)"
| "truthy (JStr s) = (s \<noteq> [])"
| "truthy (JArr xs) = True"
| "truthy (JObj m) = True"
| "truthy (JFun f) = True"

fun typeof :: "jsval \<Rightarrow> string" where
  "typeof JUndefined = ''undefined''"
| "typeof JNull = ''object''"
| "typeof (JBool b) = ''boolean''"
| "typeof (JNum n) = ''number''"
| "typeof (JStr s) = ''string''"
| "typeof (JArr xs) = ''object''"
| "typeof (JObj m) = ''object''"
| "typeof (JFun f) = ''function''"

text \<open>\<^verbatim>\<open>const isObject = value => Object(value) === value;\<close>\<close>

fun isObject :: "jsval \<Rightarrow> bool" where
  "isObject (JArr xs) = True"
| "isObject (JObj m) = True"
| "isObject (JFun f) = True"
| "isObject v = False"

fun isArray :: "jsval \<Rightarrow> bool" where
  "isArray (JArr xs) = True"
| "isArray v = False"

text \<open>\<^verbatim>\<open>v == null\<close> holds of \<^verbatim>\<open>null\<close> and \<^verbatim>\<open>undefined\<close> only.\<close>

fun nullish :: "jsval \<Rightarrow> bool" where
  "nullish JUndefined = True"
| "nullish JNull = True"
| "nullish v = False"

text \<open>The decimal name of an array index, as JavaScript writes the keys of an array.\<close>

definition digit_char :: "nat \<Rightarrow> char" where
  "digit_char d = ''0123456789'' ! d"

fun string_of_nat :: "nat \<Rightarrow> string" where
  "string_of_nat n =
     (if n < 10 then [digit_char n]
      else string_of_nat (n div 10) @ [digit_char (n mod 10)])"

definition index_keys :: "nat \<Rightarrow> pkey list" where
  "index_keys n = map (\<lambda>i. Name (string_of_nat i)) [0..<n]"

text \<open>
  The own enumerable properties of a value: what a rest pattern \<^verbatim>\<open>{ a, ...rest } = v\<close> and
  a spread \<^verbatim>\<open>{ ...v }\<close> copy. An array and a string have their indices; a boolean, a
  number and a function value have none. (\<^verbatim>\<open>null\<close> and \<^verbatim>\<open>undefined\<close> have no properties
  at all: the callers below test for them first.)
\<close>

fun own_properties :: "jsval \<Rightarrow> props" where
  "own_properties (JObj m) = m"
| "own_properties (JArr xs) = map_of (zip (index_keys (length xs)) xs)"
| "own_properties (JStr s) = map_of (zip (index_keys (length s)) (map (\<lambda>c. JStr [c]) s))"
| "own_properties v = Map.empty"

definition lookup :: "props \<Rightarrow> pkey \<Rightarrow> jsval" where
  "lookup m k = (case m k of None \<Rightarrow> JUndefined | Some v \<Rightarrow> v)"

definition get_prop :: "jsval \<Rightarrow> pkey \<Rightarrow> jsval" where
  "get_prop v k = lookup (own_properties v) k"

text \<open>
  \<^verbatim>\<open>const hasOwn = Function.prototype.call.bind(Object.prototype.hasOwnProperty);\<close>
  It is only asked about the forbidden option names, none of which is a built-in
  non-enumerable property (\<^verbatim>\<open>length\<close>) of an array or a string.
\<close>

definition hasOwn :: "jsval \<Rightarrow> string \<Rightarrow> bool" where
  "hasOwn obj name = (own_properties obj (Name name) \<noteq> None)"

text \<open>\<^verbatim>\<open>String.prototype.split\<close> with a one-character separator, and \<^verbatim>\<open>Array.prototype.join\<close>.\<close>

fun js_split :: "string \<Rightarrow> char \<Rightarrow> string list" where
  "js_split [] sep = [[]]"
| "js_split (c # cs) sep =
     (let rest = js_split cs sep
      in if c = sep then [] # rest else (c # hd rest) # tl rest)"

fun js_join :: "string list \<Rightarrow> string \<Rightarrow> string" where
  "js_join [] sep = []"
| "js_join [x] sep = x"
| "js_join (x # y # ys) sep = x @ sep @ js_join (y # ys) sep"

section \<open>Errors\<close>

text \<open>
  A thrown exception is a value of type \<open>error\<close>, and a function that may throw returns
  \<open>error + 'a\<close>. \<open>CodedError code message\<close> is an \<^verbatim>\<open>Error\<close> with a \<^verbatim>\<open>code\<close> property, as
  \<^verbatim>\<open>throwInvalidOptionError\<close> builds it; \<open>TypeError\<close> is the engine's own exception for
  reading a property of \<^verbatim>\<open>null\<close> or calling what is not a function. \<open>Unmodelled\<close> marks
  the one input whose behaviour is not determined by this model: a call of a function
  value, which is opaque here.
\<close>

datatype error = CodedError string string | TypeError | Unmodelled

definition throwInvalidOptionError :: "string \<Rightarrow> error + 'a" where
  "throwInvalidOptionError message = Inl (CodedError ''ESLINT_INVALID_OPTIONS'' message)"

definition and_then :: "'e + 'a \<Rightarrow> ('a \<Rightarrow> 'e + 'b) \<Rightarrow> 'e + 'b" where
  "and_then r f = (case r of Inl e \<Rightarrow> Inl e | Inr x \<Rightarrow> f x)"

section \<open>Option migration\<close>

definition forbiddenOptions :: "string list" where
  "forbiddenOptions =
     [''cache'', ''cacheFile'', ''cacheLocation'', ''cacheStrategy'',
      ''errorOnUnmatchedPattern'', ''extensions'', ''globInputPaths'']"

text \<open>
  The callback of the \<^verbatim>\<open>reduce\<close> in \<^verbatim>\<open>toBooleanMap\<close>:
  \<^verbatim>\<open>
  (map, def) => {
      const [key, value] = def.split(':');
      if (key !== '__proto__') {
          map[key] = value === undefined ? defaultValue : value === 'true';
      }
      return map;
  }
  \<close>
  \<^verbatim>\<open>def.split\<close> is a function only if \<^verbatim>\<open>def\<close> is a string, or an object that carries a
  function under \<^verbatim>\<open>split\<close>; for every other entry the call throws a TypeError.
\<close>

fun toBooleanMap_step :: "bool \<Rightarrow> props \<Rightarrow> jsval \<Rightarrow> error + props" where
  "toBooleanMap_step defaultValue m (JStr def) =
     (let parts = js_split def CHR '':'';
          key = hd parts;
          value = (if 1 < length parts then Some (parts ! 1) else None)
      in Inr (if key \<noteq> ''__proto__''
              then m(Name key \<mapsto>
                     JBool (case value of None \<Rightarrow> defaultValue | Some v \<Rightarrow> v = ''true''))
              else m))"
| "toBooleanMap_step defaultValue m def =
     (if nullish def then Inl TypeError
      else if typeof (get_prop def (Name ''split'')) = ''function'' then Inl Unmodelled
      else Inl TypeError)"

fun reduce_steps :: "('a \<Rightarrow> 'b \<Rightarrow> error + 'a) \<Rightarrow> 'b list \<Rightarrow> 'a \<Rightarrow> error + 'a" where
  "reduce_steps f [] acc = Inr acc"
| "reduce_steps f (x # xs) acc =
     (case f acc x of Inl e \<Rightarrow> Inl e | Inr acc' \<Rightarrow> reduce_steps f xs acc')"

text \<open>
  \<^verbatim>\<open>
  function toBooleanMap(keys, defaultValue, displayName) {
      if (keys && !Array.isArray(keys)) {
          throwInvalidOptionError(`Option ${displayName} must be an array`);
      }
      if (keys && keys.length > 0) {
          return keys.reduce(..., { });
      }
  }
  \<close>
  A falsy value and the empty array fall through both tests: the function returns
  \<^verbatim>\<open>undefined\<close>.
\<close>

definition toBooleanMap :: "jsval \<Rightarrow> bool \<Rightarrow> string \<Rightarrow> error + jsval" where
  "toBooleanMap keys defaultValue displayName =
     (if truthy keys \<and> \<not> isArray keys
      then throwInvalidOptionError (''Option '' @ displayName @ '' must be an array'')
      else case keys of
             JArr xs \<Rightarrow>
               (if 0 < length xs
                then and_then (reduce_steps (toBooleanMap_step defaultValue) xs Map.empty)
                       (\<lambda>m. Inr (JObj m))
                else Inr JUndefined)
           | _ \<Rightarrow> Inr JUndefined)"

text \<open>
  The inner function of \<^verbatim>\<open>migrateOptions\<close>; it writes to the two objects
  \<^verbatim>\<open>eslintOptions\<close> and \<^verbatim>\<open>overrideConfig\<close> of its closure, which are passed and returned
  here. \<^verbatim>\<open>convert\<close> may throw.
  \<^verbatim>\<open>
  function migrateOption(oldName, newName = oldName, convert = value => value) {
      const value = eslintOptions[oldName];
      delete eslintOptions[oldName];
      if (value !== undefined) {
          overrideConfig[newName] = convert(value);
      }
  }
  \<close>
\<close>

definition migrateOption ::
  "string \<Rightarrow> string \<Rightarrow> (jsval \<Rightarrow> error + jsval) \<Rightarrow> props \<times> props \<Rightarrow> error + props \<times> props"
where
  "migrateOption oldName newName convert st =
     (let eslintOptions = fst st;
          overrideConfig = snd st;
          value = lookup eslintOptions (Name oldName);
          eslintOptions' = eslintOptions(Name oldName := None)
      in if value \<noteq> JUndefined
         then and_then (convert value)
                (\<lambda>v. Inr (eslintOptions', overrideConfig(Name newName \<mapsto> v)))
         else Inr (eslintOptions', overrideConfig))"

text \<open>The calls of \<^verbatim>\<open>migrateOption\<close>, in the order of the source (lines 373 to 382).\<close>

definition migrations :: "(props \<times> props \<Rightarrow> error + props \<times> props) list" where
  "migrations =
     [migrateOption ''envs'' ''env'' (\<lambda>envs. toBooleanMap envs True ''envs''),
      migrateOption ''extends'' ''extends'' Inr,
      migrateOption ''globals'' ''globals'' (\<lambda>globals. toBooleanMap globals False ''globals''),
      migrateOption ''ignorePattern'' ''ignorePatterns'' Inr,
      migrateOption ''parser'' ''parser'' Inr,
      migrateOption ''parserOptions'' ''parserOptions'' Inr,
      (\<lambda>st. if isArray (lookup (fst st) (Name ''plugins''))
            then migrateOption ''plugins'' ''plugins'' Inr st
            else Inr st),
      migrateOption ''rules'' ''rules'' Inr]"

text \<open>
  \<^verbatim>\<open>exports.migrateOptions = (options = { }) => ...\<close>. The first argument of the model is
  the value of \<^verbatim>\<open>require('eslint').ESLint\<close>, the class of the external engine.

  The destructuring of line 337 throws a TypeError on \<^verbatim>\<open>null\<close>. The object
  \<^verbatim>\<open>overrideConfig\<close> is created at line 355 and stored in \<^verbatim>\<open>eslintOptions.overrideConfig\<close>
  at once; the later writes of \<^verbatim>\<open>migrateOption\<close> go to that same object, so the
  property holds the final \<^verbatim>\<open>overrideConfig\<close> when the function returns. No step in
  between reads or deletes \<^verbatim>\<open>eslintOptions.overrideConfig\<close>.
\<close>

definition migrateOptions :: "jsval \<Rightarrow> jsval \<Rightarrow> error + jsval" where
  "migrateOptions defaultESLint options0 =
     (let options = (if options0 = JUndefined then JObj Map.empty else options0) in
      if typeof options = ''string''
      then Inr (JObj [Name ''eslintOptions'' \<mapsto> JObj [Name ''overrideConfigFile'' \<mapsto> options]])
      else if options = JNull then Inl TypeError
      else
        let rawESLint = get_prop options ESLintKey;
            rawOverrideConfig = get_prop options (Name ''overrideConfig'');
            quiet = get_prop options (Name ''quiet'');
            warnFileIgnored = get_prop options (Name ''warnFileIgnored'');
            rawWarnIgnored = get_prop options (Name ''warnIgnored'');
            eslintOptions = own_properties options |`
              (- {ESLintKey, Name ''overrideConfig'', Name ''quiet'',
                  Name ''warnFileIgnored'', Name ''warnIgnored''});
            invalidOptions = filter (\<lambda>option. hasOwn options option) forbiddenOptions
        in
        if invalidOptions \<noteq> []
        then throwInvalidOptionError (''Invalid options: '' @ js_join invalidOptions '', '')
        else if \<not> nullish rawOverrideConfig \<and> typeof rawOverrideConfig \<noteq> ''object''
        then throwInvalidOptionError ''Option overrideConfig must be an object or null''
        else
          let overrideConfig =
                (if \<not> nullish rawOverrideConfig then own_properties rawOverrideConfig
                 else Map.empty);
              configFile = lookup eslintOptions (Name ''configFile'');
              eslintOptions1 = eslintOptions(Name ''configFile'' := None);
              eslintOptions2 =
                (if configFile \<noteq> JUndefined
                 then eslintOptions1(Name ''overrideConfigFile'' \<mapsto> configFile)
                 else eslintOptions1)
          in
          and_then (foldl and_then (Inr (eslintOptions2, overrideConfig)) migrations)
            (\<lambda>st.
               let ESLint = (if truthy rawESLint then rawESLint else defaultESLint);
                   warnIgnored =
                     (if warnFileIgnored \<noteq> JUndefined then warnFileIgnored
                      else rawWarnIgnored)
               in Inr (JObj
                    [Name ''ESLint'' \<mapsto> ESLint,
                     Name ''eslintOptions'' \<mapsto>
                       JObj ((fst st)(Name ''overrideConfig'' \<mapsto> JObj (snd st))),
                     Name ''quiet'' \<mapsto> quiet,
                     Name ''warnIgnored'' \<mapsto> warnIgnored])))"

text \<open>
  The errors the migration steps can raise: a TypeError, the undetermined call, or a
  coded error whose message starts with \<^verbatim>\<open>Option\<close>.
\<close>

definition option_error :: "error \<Rightarrow> bool" where
  "option_error e = (case e of CodedError c m \<Rightarrow> take 7 m = ''Option '' | _ \<Rightarrow> True)"


section \<open>The boolean map of a list of entries, in the words of the specification\<close>

text \<open>
  An entry is a key, optionally followed by \<^verbatim>\<open>:\<close> and an explicit value: the key is the text
  before the first \<^verbatim>\<open>:\<close>, the explicit value the text between the first \<^verbatim>\<open>:\<close> and the
  next one (or the end). An entry without \<^verbatim>\<open>:\<close> has no explicit value and stands for the
  default; an explicit value stands for \<^verbatim>\<open>true\<close> exactly when it is the string \<^verbatim>\<open>true\<close>. The
  map of a list of entries sends each key other than \<^verbatim>\<open>__proto__\<close> to the boolean of the last
  entry with that key, and has no other keys.
\<close>

definition entry_key :: "string \<Rightarrow> string" where
  "entry_key e = takeWhile (\<lambda>c. c \<noteq> CHR '':'') e"

definition entry_value :: "string \<Rightarrow> string option" where
  "entry_value e =
     (if CHR '':'' \<in> set e
      then Some (takeWhile (\<lambda>c. c \<noteq> CHR '':'') (tl (dropWhile (\<lambda>c. c \<noteq> CHR '':'') e)))
      else None)"

definition entry_bool :: "bool \<Rightarrow> string \<Rightarrow> bool" where
  "entry_bool defaultValue e =
     (case entry_value e of None \<Rightarrow> defaultValue | Some v \<Rightarrow> v = ''true'')"

definition boolean_map :: "bool \<Rightarrow> string list \<Rightarrow> props" where
  "boolean_map defaultValue entries k =
     (case k of
        ESLintKey \<Rightarrow> None
      | Name s \<Rightarrow>
          if s = ''__proto__'' then None
          else map_option (\<lambda>e. JBool (entry_bool defaultValue e))
                 (find (\<lambda>e. entry_key e = s) (rev entries)))"

section \<open>Lint messages and results\<close>

text \<open>
  A message, as far as \<^verbatim>\<open>util.js\<close> looks at it: the severity (a number; ESLint uses 0, 1
  and 2), the \<^verbatim>\<open>fatal\<close> flag, which is tested for truthiness, the \<^verbatim>\<open>fix\<close> payload, which is
  compared with \<^verbatim>\<open>undefined\<close>, and the text. A result has a file path, its messages, the
  five counts, and whatever other properties the engine gave it (\<^verbatim>\<open>source\<close>, \<^verbatim>\<open>output\<close>,
  \<^verbatim>\<open>fixed\<close>, ...). Message objects are never written to by this code, so a message
  sequence is a list of message values.
\<close>

record lint_message =
  severity :: int
  fatal :: jsval
  fix_payload :: jsval
  message :: string

record lint_result =
  filePath :: string
  messages :: "lint_message list"
  errorCount :: nat
  warningCount :: nat
  fixableErrorCount :: nat
  fixableWarningCount :: nat
  fatalErrorCount :: nat
  other :: props

definition isErrorMessage :: "lint_message \<Rightarrow> bool" where
  "isErrorMessage m = (severity m > 1)"

definition isWarningMessage :: "lint_message \<Rightarrow> bool" where
  "isWarningMessage m = (severity m = 1)"

text \<open>\<^verbatim>\<open>Number(b)\<close> for a boolean \<^verbatim>\<open>b\<close>.\<close>

definition Number :: "bool \<Rightarrow> nat" where
  "Number b = (if b then 1 else 0)"

definition countErrorMessage :: "nat \<Rightarrow> lint_message \<Rightarrow> nat" where
  "countErrorMessage count' m = count' + Number (isErrorMessage m)"

definition countWarningMessage :: "nat \<Rightarrow> lint_message \<Rightarrow> nat" where
  "countWarningMessage count' m = count' + Number (isWarningMessage m)"

definition countFixableErrorMessage :: "nat \<Rightarrow> lint_message \<Rightarrow> nat" where
  "countFixableErrorMessage count' m =
     count' + Number (isErrorMessage m \<and> fix_payload m \<noteq> JUndefined)"

definition countFixableWarningMessage :: "nat \<Rightarrow> lint_message \<Rightarrow> nat" where
  "countFixableWarningMessage count' m =
     count' + Number (isWarningMessage m \<and> fix_payload m \<noteq> JUndefined)"

definition countFatalErrorMessage :: "nat \<Rightarrow> lint_message \<Rightarrow> nat" where
  "countFatalErrorMessage count' m =
     count' + Number (isErrorMessage m \<and> truthy (fatal m))"

text \<open>
  \<^verbatim>\<open>Array.prototype.filter(callback, thisArg)\<close>: the callback is called with \<^verbatim>\<open>thisArg\<close> as
  its \<^verbatim>\<open>this\<close>, and with the element, its index and the array; an element is kept when the
  answer is truthy. The callback is a function of what it is given: it reads, and
  writes nothing. \<^verbatim>\<open>Array.prototype.reduce(f, init)\<close> is \<^const>\<open>foldl\<close>.
\<close>

fun filter_from :: "nat \<Rightarrow> ('a \<Rightarrow> nat \<Rightarrow> jsval) \<Rightarrow> 'a list \<Rightarrow> 'a list" where
  "filter_from i callback [] = []"
| "filter_from i callback (x # xs) =
     (if truthy (callback x i) then x # filter_from (Suc i) callback xs
      else filter_from (Suc i) callback xs)"

definition js_filter :: "('t \<Rightarrow> 'a \<Rightarrow> nat \<Rightarrow> 'a list \<Rightarrow> jsval) \<Rightarrow> 't \<Rightarrow> 'a list \<Rightarrow> 'a list" where
  "js_filter callback thisArg xs = filter_from 0 (\<lambda>x i. callback thisArg x i xs) xs"

section \<open>The store\<close>

text \<open>
  Result objects and arrays of results are mutable and passed by reference. The store
  holds them: an address is an index into the list of cells, and a new object gets the
  next index. An array cell holds the results it contains.
\<close>

type_synonym addr = nat

datatype cell = ResultObject lint_result | ResultArray "lint_result list"

type_synonym store = "cell list"

definition deref :: "store \<Rightarrow> addr \<Rightarrow> cell option" where
  "deref s a = (if a < length s then Some (s ! a) else None)"

definition alloc :: "store \<Rightarrow> cell \<Rightarrow> addr \<times> store" where
  "alloc s c = (length s, s @ [c])"

definition assign :: "store \<Rightarrow> addr \<Rightarrow> cell \<Rightarrow> store" where
  "assign s a c = s[a := c]"

text \<open>
  \<^verbatim>\<open>
  exports.filterResult = (result, filter) => {
      const { messages, ...newResult } = result;
      const newMessages = messages.filter(filter, result);
      newResult.messages = newMessages;
      newResult.errorCount          = newMessages.reduce(countErrorMessage, 0);
      newResult.warningCount        = newMessages.reduce(countWarningMessage, 0);
      newResult.fixableErrorCount   = newMessages.reduce(countFixableErrorMessage, 0);
      newResult.fixableWarningCount = newMessages.reduce(countFixableWarningMessage, 0);
      newResult.fatalErrorCount     = newMessages.reduce(countFatalErrorMessage, 0);
      return newResult;
  };
  \<close>
  \<^verbatim>\<open>newResult\<close> is a new object with the other properties of \<^verbatim>\<open>result\<close>; the model allocates
  it once all its properties are set. The function takes the address of \<^verbatim>\<open>result\<close> and
  returns the address of \<^verbatim>\<open>newResult\<close> with the store after the call. If \<^verbatim>\<open>result\<close> is an
  array, \<^verbatim>\<open>messages\<close> is \<^verbatim>\<open>undefined\<close> and \<^verbatim>\<open>messages.filter\<close> throws.
\<close>

definition filterResult ::
  "store \<Rightarrow> addr \<Rightarrow> (lint_result \<Rightarrow> lint_message \<Rightarrow> nat \<Rightarrow> lint_message list \<Rightarrow> jsval)
     \<Rightarrow> error + addr \<times> store"
where
  "filterResult s result filter' =
     (case deref s result of
        Some (ResultObject r) \<Rightarrow>
          let newMessages = js_filter filter' r (messages r);
              newResult = r
                \<lparr>messages := newMessages,
                 errorCount := foldl countErrorMessage 0 newMessages,
                 warningCount := foldl countWarningMessage 0 newMessages,
                 fixableErrorCount := foldl countFixableErrorMessage 0 newMessages,
                 fixableWarningCount := foldl countFixableWarningMessage 0 newMessages,
                 fatalErrorCount := foldl countFatalErrorMessage 0 newMessages\<rparr>
          in Inr (alloc s (ResultObject newResult))
      | _ \<Rightarrow> Inl TypeError)"

section \<open>Results for ignored files\<close>

text \<open>
  \<^verbatim>\<open>const isHiddenRegExp = /(?<![^/\\])\.(?!\.)/u;\<close>
  \<^verbatim>\<open>const isInNodeModulesRegExp = /(?<![^/\\])node_modules[/\\]/u;\<close>
  \<^verbatim>\<open>RegExp.prototype.test\<close> asks whether the expression matches at some position. The
  lookbehind \<^verbatim>\<open>(?<![^/\\])\<close> holds at a position that is not preceded by a character other
  than a slash or a backslash: at the start of the string or after a separator.
\<close>

definition is_separator :: "char \<Rightarrow> bool" where
  "is_separator c = (c = CHR ''/'' \<or> c = CHR 0x5C)"

fun not_after_other :: "char option \<Rightarrow> bool" where
  "not_after_other None = True"
| "not_after_other (Some c) = is_separator c"

text \<open>
  \<open>lookbehind_scan body prev s\<close>: the expression \<^verbatim>\<open>(?<![^/\\])body\<close> matches at some position
  of \<open>s\<close>, where \<open>prev\<close> is the character before \<open>s\<close> and \<open>body\<close> tells whether the rest
  of the expression matches at the front of a string.
\<close>

fun lookbehind_scan :: "(string \<Rightarrow> bool) \<Rightarrow> char option \<Rightarrow> string \<Rightarrow> bool" where
  "lookbehind_scan body prev [] = (not_after_other prev \<and> body [])"
| "lookbehind_scan body prev (c # cs) =
     ((not_after_other prev \<and> body (c # cs)) \<or> lookbehind_scan body (Some c) cs)"

text \<open>\<^verbatim>\<open>\.(?!\.)\<close>: a dot that is not followed by a dot.\<close>

definition dot_here :: "string \<Rightarrow> bool" where
  "dot_here s =
     (case s of
        [] \<Rightarrow> False
      | c # cs \<Rightarrow> c = CHR ''.'' \<and> (case cs of [] \<Rightarrow> True | d # _ \<Rightarrow> d \<noteq> CHR ''.''))"

text \<open>\<^verbatim>\<open>node_modules[/\\]\<close>: the twelve characters, then a slash or a backslash.\<close>

definition node_modules_here :: "string \<Rightarrow> bool" where
  "node_modules_here s =
     (take 12 s = ''node_modules''
      \<and> (case drop 12 s of [] \<Rightarrow> False | d # _ \<Rightarrow> is_separator d))"

definition isHiddenRegExp_test :: "string \<Rightarrow> bool" where
  "isHiddenRegExp_test s = lookbehind_scan dot_here None s"

definition isInNodeModulesRegExp_test :: "string \<Rightarrow> bool" where
  "isInNodeModulesRegExp_test s = lookbehind_scan node_modules_here None s"

definition hidden_message :: string where
  \<open>hidden_message =
     ''File ignored by default. Use a negated ignore pattern (like '' @
     ''"!<relative/path/to/filename>") to override.''\<close>

definition node_modules_message :: string where
  \<open>node_modules_message =
     ''File ignored by default. Use a negated ignore pattern like "!node_modules/*" to '' @
     ''override.''\<close>

definition pattern_message :: string where
  \<open>pattern_message =
     ''File ignored because of a matching ignore pattern. Set "ignore" option to false to '' @
     ''override.''\<close>

text \<open>
  \<^verbatim>\<open>exports.createIgnoreResult = (filePath, baseDir) => ...\<close>. \<^verbatim>\<open>relative\<close> is the function
  of Node's \<^verbatim>\<open>path\<close> module; the model takes it as its first argument.
\<close>

definition createIgnoreResult :: "(string \<Rightarrow> string \<Rightarrow> string) \<Rightarrow> string \<Rightarrow> string \<Rightarrow> lint_result" where
  "createIgnoreResult relative filePath' baseDir =
     (let relativePath = relative baseDir filePath';
          message' =
            (if isHiddenRegExp_test relativePath then hidden_message
             else if isInNodeModulesRegExp_test relativePath then node_modules_message
             else pattern_message)
      in \<lparr>filePath = filePath',
          messages = [\<lparr>severity = 1, fatal = JBool False, fix_payload = JUndefined,
                       message = message'\<rparr>],
          errorCount = 0,
          warningCount = 1,
          fixableErrorCount = 0,
          fixableWarningCount = 0,
          fatalErrorCount = 0,
          other = Map.empty\<rparr>)"

section \<open>Tagged errors and stream handlers\<close>

text \<open>
  \<^verbatim>\<open>PluginError\<close> is the class of the package \<^verbatim>\<open>plugin-error\<close>, which \<^verbatim>\<open>util.js\<close> requires
  (line 24) and which is not a part of the repository. An instance is represented by the
  three properties that matter here. A value that can be thrown is an instance of
  \<^verbatim>\<open>PluginError\<close>, another instance of \<^verbatim>\<open>Error\<close>, represented by its message, or any other
  value: this is what \<^verbatim>\<open>instanceof\<close> tells apart. An exception of the constructor is a
  plain \<^verbatim>\<open>Error\<close> with a message, or a TypeError of the engine.
\<close>

record plugin_error =
  plugin :: string
  error_message :: jsval
  showStack :: jsval

datatype thrown = PluginErrorInstance plugin_error | ErrorInstance string | OtherValue jsval

datatype exception = PlainError string | EngineTypeError

text \<open>
  The call \<^verbatim>\<open>new PluginError('gulp-eslint-new', error, { showStack: true })\<close> of line 47, as
  the constructor of the package treats it:
  \<^item> if \<^verbatim>\<open>error\<close> is an instance of \<^verbatim>\<open>Error\<close>, it becomes the option \<^verbatim>\<open>error\<close> beside
    \<^verbatim>\<open>showStack: true\<close>, and its message is copied to the new instance;
  \<^item> otherwise, if \<^verbatim>\<open>typeof error === 'object'\<close>, the object itself is taken for the options
    and the third argument is dropped: \<^verbatim>\<open>showStack\<close> is that of the object, or the default
    \<^verbatim>\<open>false\<close>; the message is that of the object, or else that of the object under its
    property \<^verbatim>\<open>error\<close> (the keys of that property are read, which throws a TypeError
    when it is \<^verbatim>\<open>null\<close>, as setting \<^verbatim>\<open>plugin\<close> on the options does when they are \<^verbatim>\<open>null\<close>);
  \<^item> otherwise \<^verbatim>\<open>error\<close> is the message, beside \<^verbatim>\<open>showStack: true\<close>.

  In the end the constructor throws \<^verbatim>\<open>Error('Missing error message')\<close> if the message of the
  new instance is falsy. (In the second case it also writes the property \<^verbatim>\<open>plugin\<close> to the
  object it was given; thrown objects are values here, and that write is not modelled.)
\<close>

definition finish_PluginError :: "jsval \<Rightarrow> jsval \<Rightarrow> exception + plugin_error" where
  "finish_PluginError msg flag =
     (if truthy msg
      then Inr \<lparr>plugin = ''gulp-eslint-new'', error_message = msg, showStack = flag\<rparr>
      else Inl (PlainError ''Missing error message''))"

definition new_PluginError :: "thrown \<Rightarrow> exception + plugin_error" where
  "new_PluginError error =
     (case error of
        PluginErrorInstance p \<Rightarrow> finish_PluginError (error_message p) (JBool True)
      | ErrorInstance m \<Rightarrow> finish_PluginError (JStr m) (JBool True)
      | OtherValue v \<Rightarrow>
          if typeof v = ''object''
          then
            if v = JNull then Inl EngineTypeError
            else
              let opts = own_properties v;
                  inner = lookup opts (Name ''error'')
              in if inner = JNull then Inl EngineTypeError
                 else finish_PluginError
                        (if opts (Name ''message'') \<noteq> None then lookup opts (Name ''message'')
                         else if typeof inner = ''object'' then get_prop inner (Name ''message'')
                         else JUndefined)
                        (if opts (Name ''showStack'') \<noteq> None then lookup opts (Name ''showStack'')
                         else JBool False)
          else finish_PluginError v (JBool True))"

text \<open>
  \<^verbatim>\<open>
  function createPluginError(error) {
      if (error instanceof PluginError) {
          return error;
      }
      if (error == null) {
          error = 'Unknown Error';
      }
      return new PluginError('gulp-eslint-new', error, { showStack: true });
  }
  \<close>
  The function returns an instance, or the constructor throws.
\<close>

definition createPluginError :: "thrown \<Rightarrow> exception + plugin_error" where
  "createPluginError error =
     (case error of
        PluginErrorInstance e \<Rightarrow> Inr e
      | ErrorInstance m \<Rightarrow> new_PluginError error
      | OtherValue v \<Rightarrow>
          new_PluginError (if nullish v then OtherValue (JStr ''Unknown Error'') else error))"

text \<open>
  \<^verbatim>\<open>
  async function awaitHandler(handler, data, done) {
      try {
          await handler();
      } catch (err) {
          done(createPluginError(err));
          return;
      }
      done(null, data);
  }
  \<close>
  The outcome of \<^verbatim>\<open>await handler()\<close> is a thrown value or a result. The function calls
  \<^verbatim>\<open>done\<close> with an error, or with \<^verbatim>\<open>null\<close> and the data; or \<^verbatim>\<open>createPluginError\<close> throws
  inside the \<^verbatim>\<open>catch\<close> block: then the promise of \<^verbatim>\<open>awaitHandler\<close> is rejected, which its
  callers discard (\<^verbatim>\<open>void awaitHandler(...)\<close>), and \<^verbatim>\<open>done\<close> is never called.
\<close>

datatype 'd done_call = DoneError plugin_error | DoneData 'd | NeverCalled exception

definition awaitHandler :: "thrown + 'r \<Rightarrow> 'd \<Rightarrow> 'd done_call" where
  "awaitHandler outcome data =
     (case outcome of
        Inl err \<Rightarrow>
          (case createPluginError err of
             Inl ex \<Rightarrow> NeverCalled ex
           | Inr e \<Rightarrow> DoneError e)
      | Inr r \<Rightarrow> DoneData data)"

section \<open>Formatters\<close>

text \<open>
  \<^verbatim>\<open>
  function compareResultsByFilePath({ filePath: filePath1 }, { filePath: filePath2 }) {
      if (filePath1 > filePath2) {
          return 1;
      }
      if (filePath1 < filePath2) {
          return -1;
      }
      return 0;
  }
  \<close>
  JavaScript compares two strings code unit by code unit, a proper prefix being smaller:
  the lexicographic order of \<open>string\<close>.
\<close>

definition compareResultsByFilePath :: "lint_result \<Rightarrow> lint_result \<Rightarrow> int" where
  "compareResultsByFilePath r1 r2 =
     (if filePath r1 > filePath r2 then 1
      else if filePath r1 < filePath r2 then - 1
      else 0)"

text \<open>
  \<^verbatim>\<open>Array.prototype.sort(compare)\<close> is stable; \<^verbatim>\<open>compare(a, b) > 0\<close> puts \<^verbatim>\<open>a\<close> after \<^verbatim>\<open>b\<close>.
  The standard leaves the algorithm open. The model is the stable insertion sort, with
  which every stable sort agrees when the comparison is a consistent order.
\<close>

fun insert_by :: "('a \<Rightarrow> 'a \<Rightarrow> int) \<Rightarrow> 'a \<Rightarrow> 'a list \<Rightarrow> 'a list" where
  "insert_by compare x [] = [x]"
| "insert_by compare x (y # ys) =
     (if compare x y > 0 then y # insert_by compare x ys else x # y # ys)"

definition js_sort :: "('a \<Rightarrow> 'a \<Rightarrow> int) \<Rightarrow> 'a list \<Rightarrow> 'a list" where
  "js_sort compare xs = foldr (insert_by compare) xs []"

text \<open>
  The engine, as far as the formatter code uses it: \<^verbatim>\<open>eslint.getRulesMetaForResults\<close> and
  \<^verbatim>\<open>eslint.loadFormatter\<close>, with whatever types of rule metadata \<open>'m\<close> and of loaded
  formatters \<open>'l\<close> it has.
\<close>

record ('m, 'l) eslint =
  getRulesMetaForResults :: "lint_result list \<Rightarrow> 'm"
  loadFormatter :: "jsval \<Rightarrow> 'l"

text \<open>
  A formatter function is called with the results and a context object
  \<^verbatim>\<open>{ cwd, get rulesMeta() { ... } }\<close>. What it does with them is not known; all that matters
  here is how often it reads \<^verbatim>\<open>rulesMeta\<close> and what it returns. Its run is a tree: it
  returns a value (a string or a promise of one), or it reads \<^verbatim>\<open>rulesMeta\<close> and goes on
  with what it got. A formatter function reads its arguments and writes to none of
  them. Function values are opaque, so the behaviour of the function \<open>JFun f\<close> is given
  by a table \<open>call f\<close>.
\<close>

datatype 'm formatting = Return jsval | ReadRulesMeta "'m \<Rightarrow> 'm formatting"

type_synonym 'm formatter_function = "lint_result list \<Rightarrow> string \<Rightarrow> 'm formatting"

text \<open>
  The property \<^verbatim>\<open>rulesMeta\<close> of the context object is created as a getter; the getter
  replaces it by a data property holding the value (\<^verbatim>\<open>defineProperty(this, 'rulesMeta',
  { value: rulesMeta })\<close>). \<open>lookups\<close> counts the calls of
  \<^verbatim>\<open>eslint.getRulesMetaForResults\<close>: it is not a part of the object, it records what the
  object did.
  \<^verbatim>\<open>
  get rulesMeta() {
      const rulesMeta = eslint.getRulesMetaForResults(results);
      defineProperty(this, 'rulesMeta', { value: rulesMeta });
      return rulesMeta;
  }
  \<close>
\<close>

datatype 'm rulesMeta_property = Getter | Value 'm

record 'm context_state =
  rulesMeta :: "'m rulesMeta_property"
  lookups :: nat

definition get_rulesMeta ::
  "('m, 'l) eslint \<Rightarrow> lint_result list \<Rightarrow> 'm context_state \<Rightarrow> 'm \<times> 'm context_state"
where
  "get_rulesMeta eslint results c =
     (case rulesMeta c of
        Getter \<Rightarrow>
          (let rm = getRulesMetaForResults eslint results
           in (rm, c\<lparr>rulesMeta := Value rm, lookups := lookups c + 1\<rparr>))
      | Value v \<Rightarrow> (v, c))"

primrec run_formatting ::
  "('m, 'l) eslint \<Rightarrow> lint_result list \<Rightarrow> 'm formatting \<Rightarrow> 'm context_state
     \<Rightarrow> jsval \<times> 'm context_state"
where
  "run_formatting eslint results (Return v) = (\<lambda>c. (v, c))"
| "run_formatting eslint results (ReadRulesMeta k) =
     (\<lambda>c. case get_rulesMeta eslint results c of
            (rm, c') \<Rightarrow> run_formatting eslint results (k rm) c')"

text \<open>
  What \<^verbatim>\<open>resolveFormatter\<close> returns: the formatter it was given, the wrapper object it
  builds around a formatter function (a closure over \<^verbatim>\<open>cwd\<close>, \<^verbatim>\<open>eslint\<close> and the function),
  or what the engine's loader returned. \<^verbatim>\<open>typeof formatter === 'function'\<close> holds of the
  function values \<open>JFun f\<close> and of nothing else.
  \<^verbatim>\<open>
  function resolveFormatter({ cwd, eslint }, formatter) {
      if (isObject(formatter) && typeof formatter.format === 'function') {
          return formatter;
      }
      if (typeof formatter === 'function') {
          return { format: results => { ... } };
      }
      // Use ESLint to look up formatter references.
      return eslint.loadFormatter(formatter);
  }
  \<close>
\<close>

datatype ('m, 'l) resolved_formatter =
    Given jsval
  | Wrapper string "('m, 'l) eslint" nat
  | Loaded 'l

definition resolveFormatter ::
  "string \<times> ('m, 'l) eslint \<Rightarrow> jsval \<Rightarrow> ('m, 'l) resolved_formatter"
where
  "resolveFormatter info formatter =
     (let cwd = fst info; eslint = snd info in
      if isObject formatter \<and> typeof (get_prop formatter (Name ''format'')) = ''function''
      then Given formatter
      else case formatter of
             JFun f \<Rightarrow> Wrapper cwd eslint f
           | _ \<Rightarrow> Loaded (loadFormatter eslint formatter))"

text \<open>
  The method \<^verbatim>\<open>format\<close> of the wrapper. \<^verbatim>\<open>results\<close> is the address of the caller's array.
  \<^verbatim>\<open>
  format: results => {
      results.sort(compareResultsByFilePath);
      return formatter(results, { cwd, get rulesMeta() { ... } });
  }
  \<close>
  It returns what the formatter function returned, with the number of calls of
  \<^verbatim>\<open>eslint.getRulesMetaForResults\<close> the call made, and the store after the call. If
  \<^verbatim>\<open>results\<close> is not an array, \<^verbatim>\<open>results.sort\<close> is not a function.
\<close>

definition wrapper_format ::
  "(nat \<Rightarrow> 'm formatter_function) \<Rightarrow> string \<Rightarrow> ('m, 'l) eslint \<Rightarrow> nat \<Rightarrow> store \<Rightarrow> addr
     \<Rightarrow> error + (jsval \<times> nat) \<times> store"
where
  "wrapper_format call cwd eslint formatter s results =
     (case deref s results of
        Some (ResultArray rs) \<Rightarrow>
          let rs' = js_sort compareResultsByFilePath rs;
              s' = assign s results (ResultArray rs');
              (out, c) = run_formatting eslint rs' (call formatter rs' cwd)
                           \<lparr>rulesMeta = Getter, lookups = 0\<rparr>
          in Inr ((out, lookups c), s')
      | _ \<Rightarrow> Inl TypeError)"

text \<open>
  What a formatter function returns when every read of \<^verbatim>\<open>rulesMeta\<close> gives the same value,
  and whether it reads \<^verbatim>\<open>rulesMeta\<close> at all.
\<close>

primrec answer :: "'m formatting \<Rightarrow> 'm \<Rightarrow> jsval" where
  "answer (Return v) rm = v"
| "answer (ReadRulesMeta k) rm = answer (k rm) rm"

primrec reads_rulesMeta :: "'m formatting \<Rightarrow> bool" where
  "reads_rulesMeta (Return v) = False"
| "reads_rulesMeta (ReadRulesMeta k) = True"

section \<open>Path segments, in the words of the specification\<close>

text \<open>
  The segments of a path are the pieces between its separators (slash or backslash).
  \<open>hidden_segment\<close> is what the code takes for a hidden segment: one that starts with a
  dot which is not followed by a second dot. \<open>claimed_hidden_segment\<close> follows the words
  of the claim: a segment that starts with a dot and is not \<^verbatim>\<open>..\<close>.
\<close>

fun path_segments :: "string \<Rightarrow> string list" where
  "path_segments [] = [[]]"
| "path_segments (c # cs) =
     (let rest = path_segments cs
      in if is_separator c then [] # rest else (c # hd rest) # tl rest)"

definition hidden_segment :: "string \<Rightarrow> bool" where
  "hidden_segment seg =
     (case seg of
        [] \<Rightarrow> False
      | c # rest \<Rightarrow> c = CHR ''.'' \<and> (case rest of [] \<Rightarrow> True | d # _ \<Rightarrow> d \<noteq> CHR ''.''))"

definition claimed_hidden_segment :: "string \<Rightarrow> bool" where
  "claimed_hidden_segment seg = (take 1 seg = ''.'' \<and> seg \<noteq> ''..'')"

section \<open>Example inputs\<close>

text \<open>
  A result with two errors (one fatal, one fixable) and two warnings (one fixable), and a
  predicate that answers with the index of the message: it drops the first message and
  keeps the others.
\<close>

definition example_messages :: "lint_message list" where
  "example_messages =
     [\<lparr>severity = 2, fatal = JBool True, fix_payload = JUndefined, message = ''Parsing error''\<rparr>,
      \<lparr>severity = 1, fatal = JUndefined, fix_payload = JObj Map.empty, message = ''no-extra-semi''\<rparr>,
      \<lparr>severity = 2, fatal = JUndefined, fix_payload = JObj Map.empty, message = ''semi''\<rparr>,
      \<lparr>severity = 1, fatal = JUndefined, fix_payload = JUndefined, message = ''no-console''\<rparr>]"

definition example_result :: lint_result where
  "example_result =
     \<lparr>filePath = ''/base/src/a.js'', messages = example_messages,
      errorCount = 2, warningCount = 2, fixableErrorCount = 1, fixableWarningCount = 1,
      fatalErrorCount = 1, other = [Name ''source'' \<mapsto> JStr ''x;;'']\<rparr>"

definition skip_first :: "lint_result \<Rightarrow> lint_message \<Rightarrow> nat \<Rightarrow> lint_message list \<Rightarrow> jsval" where
  "skip_first this m i ms = JNum (int i)"

text \<open>
  Two results, an engine whose rule metadata is the number of results, and a formatter
  function that reads \<^verbatim>\<open>rulesMeta\<close> twice and returns the sum of what it read.
\<close>

definition example_a :: lint_result where
  "example_a = \<lparr>filePath = ''/base/a.js'', messages = [], errorCount = 0, warningCount = 0,
     fixableErrorCount = 0, fixableWarningCount = 0, fatalErrorCount = 0, other = Map.empty\<rparr>"

definition example_b :: lint_result where
  "example_b = \<lparr>filePath = ''/base/b.js'', messages = [], errorCount = 0, warningCount = 0,
     fixableErrorCount = 0, fixableWarningCount = 0, fatalErrorCount = 0, other = Map.empty\<rparr>"

definition example_eslint :: "(nat, jsval) eslint" where
  "example_eslint = \<lparr>getRulesMetaForResults = length, loadFormatter = (\<lambda>name. name)\<rparr>"

definition example_call :: "nat \<Rightarrow> nat formatter_function" where
  "example_call f results cwd =
     ReadRulesMeta (\<lambda>first. ReadRulesMeta (\<lambda>second. Return (JNum (int first + int second))))"

section \<open>Properties of option migration\<close>

subsection \<open>Sequencing\<close>


lemma foldl_and_then_Inl [simp]: "foldl and_then (Inl e) fs = Inl e"
  by (induction fs) (simp_all add: and_then_def)

lemma and_then_Inr [simp]: "and_then (Inr x) f = f x"
  by (simp add: and_then_def)

lemma and_then_Inl [simp]: "and_then (Inl e) f = Inl e"
  by (simp add: and_then_def)

lemma foldl_and_then_error:
  "foldl and_then (Inr st) fs = Inl e \<Longrightarrow> \<exists>f \<in> set fs. \<exists>st'. f st' = Inl e"
proof (induction fs arbitrary: st)
  case Nil
  then show ?case by simp
next
  case (Cons f fs)
  show ?case
  proof (cases "f st")
    case (Inl e')
    with Cons.prems have "e' = e" by simp
    with Inl show ?thesis by auto
  next
    case (Inr st1)
    with Cons.prems have "foldl and_then (Inr st1) fs = Inl e" by simp
    from Cons.IH [OF this] show ?thesis by auto
  qed
qed

lemma reduce_steps_error:
  "reduce_steps (toBooleanMap_step d) xs m = Inl e \<Longrightarrow> e = TypeError \<or> e = Unmodelled"
proof (induction xs arbitrary: m)
  case Nil
  then show ?case by simp
next
  case (Cons x xs)
  then show ?case
    by (cases x) (auto simp: Let_def split: sum.splits if_splits)
qed

lemma toBooleanMap_error:
  "toBooleanMap keys d n = Inl e \<Longrightarrow> option_error e"
  by (cases keys)
     (auto simp: toBooleanMap_def throwInvalidOptionError_def option_error_def and_then_def
           dest: reduce_steps_error split: if_splits sum.splits)

lemma migrateOption_error:
  "migrateOption old new conv st = Inl e \<Longrightarrow> \<exists>v. conv v = Inl e"
  by (auto simp: migrateOption_def Let_def and_then_def split: if_splits sum.splits)


lemma migrateOption_Inr_total: "migrateOption old new Inr st = Inl e \<Longrightarrow> False"
  by (drule migrateOption_error) simp

lemma migrateOption_toBooleanMap_error:
  "migrateOption old new (\<lambda>v. toBooleanMap v d n) st = Inl e \<Longrightarrow> option_error e"
  by (drule migrateOption_error) (blast dest: toBooleanMap_error)


lemma and_then_InlE:
  assumes "and_then r f = Inl e"
  obtains "r = Inl e" | x where "r = Inr x" and "f x = Inl e"
  using assms by (cases r) simp_all

lemma and_then_InrE:
  assumes "and_then r f = Inr y"
  obtains x where "r = Inr x" and "f x = Inr y"
  using assms by (cases r) simp_all

lemma migrations_chain_error:
  assumes "foldl and_then (Inr st) migrations = Inl e"
  shows "option_error e"
proof -
  from assms show ?thesis
    unfolding migrations_def foldl_Cons foldl_Nil
    apply (elim and_then_InlE)
            apply (simp_all only: sum.inject sum.distinct)
    apply (auto dest: migrateOption_Inr_total migrateOption_toBooleanMap_error split: if_splits)
    done
qed



lemma migrateOptions_Inr:
  assumes "typeof options \<noteq> ''string''"
    and "migrateOptions d options = Inr r"
  obtains eo oc st where
    "foldl and_then (Inr (eo, oc)) migrations = Inr st"
    "\<And>k. k \<notin> {ESLintKey, Name ''overrideConfig'', Name ''quiet'', Name ''warnFileIgnored'',
            Name ''warnIgnored'', Name ''configFile'', Name ''overrideConfigFile''}
        \<Longrightarrow> eo k = own_properties options k"
    "r = JObj
       [Name ''ESLint'' \<mapsto>
          (if truthy (get_prop options ESLintKey) then get_prop options ESLintKey else d),
        Name ''eslintOptions'' \<mapsto>
          JObj ((fst st)(Name ''overrideConfig'' \<mapsto> JObj (snd st))),
        Name ''quiet'' \<mapsto> get_prop options (Name ''quiet''),
        Name ''warnIgnored'' \<mapsto>
          (if get_prop options (Name ''warnFileIgnored'') \<noteq> JUndefined
           then get_prop options (Name ''warnFileIgnored'')
           else get_prop options (Name ''warnIgnored''))]"
proof -
  define opts where "opts = (if options = JUndefined then JObj Map.empty else options)"
  have own: "own_properties opts = own_properties options"
    by (simp add: opts_def)
  have same: "get_prop opts k = get_prop options k" for k
    by (simp add: own get_prop_def)
  have ty: "typeof opts \<noteq> ''string''"
    using assms(1) by (simp add: opts_def)
  note r = assms(2)
  have n: "opts \<noteq> JNull"
  proof
    assume "opts = JNull"
    with r ty show False
      unfolding migrateOptions_def opts_def [symmetric] Let_def
      by (simp only: if_False if_True sum.distinct simp_thms)
  qed
  have f: "filter (\<lambda>option. hasOwn opts option) forbiddenOptions = []"
  proof (rule ccontr)
    assume "filter (\<lambda>option. hasOwn opts option) forbiddenOptions \<noteq> []"
    with r ty n show False
      unfolding migrateOptions_def opts_def [symmetric] Let_def throwInvalidOptionError_def
      by (simp only: if_False if_True sum.distinct simp_thms)
  qed
  have c: "\<not> (\<not> nullish (get_prop opts (Name ''overrideConfig'')) \<and>
             typeof (get_prop opts (Name ''overrideConfig'')) \<noteq> ''object'')"
  proof
    assume "\<not> nullish (get_prop opts (Name ''overrideConfig'')) \<and>
             typeof (get_prop opts (Name ''overrideConfig'')) \<noteq> ''object''"
    with r ty n f show False
      unfolding migrateOptions_def opts_def [symmetric] Let_def throwInvalidOptionError_def
      by (simp only: if_False if_True sum.distinct simp_thms)
  qed
  define rest where "rest = own_properties opts |`
      (- {ESLintKey, Name ''overrideConfig'', Name ''quiet'',
          Name ''warnFileIgnored'', Name ''warnIgnored''})"
  define eo where "eo =
      (if lookup rest (Name ''configFile'') \<noteq> JUndefined
       then rest(Name ''configFile'' := None,
              Name ''overrideConfigFile'' \<mapsto> lookup rest (Name ''configFile''))
       else rest(Name ''configFile'' := None))"
  define oc where "oc =
      (if \<not> nullish (get_prop opts (Name ''overrideConfig''))
       then own_properties (get_prop opts (Name ''overrideConfig''))
       else Map.empty)"
  from r ty n f c obtain st where
    chain: "foldl and_then (Inr (eo, oc)) migrations = Inr st" and
    res: "r = JObj
       [Name ''ESLint'' \<mapsto>
          (if truthy (get_prop opts ESLintKey) then get_prop opts ESLintKey else d),
        Name ''eslintOptions'' \<mapsto>
          JObj ((fst st)(Name ''overrideConfig'' \<mapsto> JObj (snd st))),
        Name ''quiet'' \<mapsto> get_prop opts (Name ''quiet''),
        Name ''warnIgnored'' \<mapsto>
          (if get_prop opts (Name ''warnFileIgnored'') \<noteq> JUndefined
           then get_prop opts (Name ''warnFileIgnored'')
           else get_prop opts (Name ''warnIgnored''))]"
    unfolding migrateOptions_def opts_def [symmetric] Let_def rest_def [symmetric]
      eo_def [symmetric] oc_def [symmetric]
    apply (simp only: if_False if_True simp_thms)
    apply (erule and_then_InrE)
    apply (simp only: sum.inject)
    done
  have frame: "eo k = own_properties options k"
    if "k \<notin> {ESLintKey, Name ''overrideConfig'', Name ''quiet'', Name ''warnFileIgnored'',
            Name ''warnIgnored'', Name ''configFile'', Name ''overrideConfigFile''}" for k
    using that by (simp add: eo_def rest_def own)
  from that [OF chain frame res [unfolded same]] show thesis
    by blast
qed

subsection \<open>The two names of the warn-on-ignored option\<close>

text \<open>
  Claim C1, as the code has it. Whenever \<^verbatim>\<open>migrateOptions\<close> returns for an options value
  that is not a string, the one \<^verbatim>\<open>warnIgnored\<close> it surfaces is the value of the legacy
  name \<^verbatim>\<open>warnFileIgnored\<close> if that is defined (not \<^verbatim>\<open>undefined\<close>), also when
  \<^verbatim>\<open>warnIgnored\<close> is given beside it; otherwise it is the value of \<^verbatim>\<open>warnIgnored\<close>,
  which is \<^verbatim>\<open>undefined\<close> when neither is given.
\<close>

theorem migrateOptions_warnIgnored:
  assumes "typeof options \<noteq> ''string''"
    and "migrateOptions d options = Inr r"
  shows "get_prop r (Name ''warnIgnored'') =
           (if get_prop options (Name ''warnFileIgnored'') \<noteq> JUndefined
            then get_prop options (Name ''warnFileIgnored'')
            else get_prop options (Name ''warnIgnored''))"
proof -
  from assms obtain st :: "props \<times> props" where "r = JObj
       [Name ''ESLint'' \<mapsto>
          (if truthy (get_prop options ESLintKey) then get_prop options ESLintKey else d),
        Name ''eslintOptions'' \<mapsto>
          JObj ((fst st)(Name ''overrideConfig'' \<mapsto> JObj (snd st))),
        Name ''quiet'' \<mapsto> get_prop options (Name ''quiet''),
        Name ''warnIgnored'' \<mapsto>
          (if get_prop options (Name ''warnFileIgnored'') \<noteq> JUndefined
           then get_prop options (Name ''warnFileIgnored'')
           else get_prop options (Name ''warnIgnored''))]"
    by (rule migrateOptions_Inr)
  then show ?thesis
    by (simp add: get_prop_def lookup_def)
qed


text \<open>Unfolding the model on a concrete options object.\<close>

lemmas migrateOptions_eval =
  migrateOptions_def Let_def get_prop_def lookup_def hasOwn_def forbiddenOptions_def
  migrations_def migrateOption_def toBooleanMap_def throwInvalidOptionError_def

theorem migrateOptions_warnIgnored_witness:
  "\<exists>r. migrateOptions (JFun 0)
         (JObj [Name ''warnIgnored'' \<mapsto> JBool True, Name ''quiet'' \<mapsto> JBool True]) = Inr r
       \<and> get_prop r (Name ''warnIgnored'') = JBool True"
proof -
  let ?options = "JObj [Name ''warnIgnored'' \<mapsto> JBool True, Name ''quiet'' \<mapsto> JBool True]"
  obtain r where r: "migrateOptions (JFun 0) ?options = Inr r"
    by (simp add: migrateOptions_eval)
  have "typeof ?options \<noteq> ''string''"
    by simp
  from migrateOptions_warnIgnored [OF this r]
  have "get_prop r (Name ''warnIgnored'') = JBool True"
    by (simp add: get_prop_def lookup_def)
  with r show ?thesis by blast
qed

text \<open>
  The claim lets the newer name \<^verbatim>\<open>warnIgnored\<close> win when both are given. For
  \<^verbatim>\<open>{ warnFileIgnored: false, warnIgnored: true }\<close> the code surfaces \<^verbatim>\<open>false\<close>, the value of
  the legacy name (line 384).
\<close>

theorem migrateOptions_newer_name_counterexample:
  "get_prop (JObj [Name ''warnFileIgnored'' \<mapsto> JBool False, Name ''warnIgnored'' \<mapsto> JBool True])
       (Name ''warnFileIgnored'') \<noteq> JUndefined
   \<and> get_prop (JObj [Name ''warnFileIgnored'' \<mapsto> JBool False, Name ''warnIgnored'' \<mapsto> JBool True])
       (Name ''warnIgnored'') = JBool True
   \<and> (\<exists>r. migrateOptions (JFun 0)
          (JObj [Name ''warnFileIgnored'' \<mapsto> JBool False, Name ''warnIgnored'' \<mapsto> JBool True])
          = Inr r
        \<and> get_prop r (Name ''warnIgnored'') = JBool False)"
  by (simp add: migrateOptions_eval)

subsection \<open>Forbidden options\<close>

lemma hasOwn_nullish [simp]: "hasOwn JNull name = False" "hasOwn JUndefined name = False"
  by (simp_all add: hasOwn_def)

lemma migrateOptions_forbidden_present:
  assumes "typeof options \<noteq> ''string''"
    and "filter (\<lambda>option. hasOwn options option) forbiddenOptions \<noteq> []"
  shows "migrateOptions d options =
           Inl (CodedError ''ESLINT_INVALID_OPTIONS''
                 (''Invalid options: '' @
                  js_join (filter (\<lambda>option. hasOwn options option) forbiddenOptions) '', ''))"
proof -
  from assms(2) have "options \<noteq> JUndefined" and n: "options \<noteq> JNull"
    by auto
  then have o: "(if options = JUndefined then JObj Map.empty else options) = options"
    by simp
  from assms n show ?thesis
    unfolding migrateOptions_def o Let_def throwInvalidOptionError_def
    by (simp only: if_False if_True simp_thms)
qed

lemma migrateOptions_forbidden_absent:
  assumes "typeof options \<noteq> ''string''"
    and f0: "filter (\<lambda>option. hasOwn options option) forbiddenOptions = []"
    and e: "migrateOptions d options = Inl (CodedError c (''Invalid options: '' @ names))"
  shows False
proof -
  define opts where "opts = (if options = JUndefined then JObj Map.empty else options)"
  have ty: "typeof opts \<noteq> ''string''"
    using assms(1) by (simp add: opts_def)
  have f: "filter (\<lambda>option. hasOwn opts option) forbiddenOptions = []"
  proof -
    have "hasOwn opts = hasOwn options"
      by (simp add: opts_def hasOwn_def fun_eq_iff)
    with f0 show ?thesis by simp
  qed
  show False
  proof (cases "opts = JNull")
    case True
    with e ty show False
      unfolding migrateOptions_def opts_def [symmetric] Let_def
      by (simp only: if_False if_True simp_thms sum.inject error.distinct)
  next
    case n: False
    show False
    proof (cases "\<not> nullish (get_prop opts (Name ''overrideConfig'')) \<and>
               typeof (get_prop opts (Name ''overrideConfig'')) \<noteq> ''object''")
      case True
      with e ty n f have
        "''Option overrideConfig must be an object or null'' = ''Invalid options: '' @ names"
        unfolding migrateOptions_def opts_def [symmetric] Let_def throwInvalidOptionError_def
        by (simp only: if_False if_True simp_thms sum.inject error.inject)
      then show False by simp
    next
      case False
      with e ty n f show False
        unfolding migrateOptions_def opts_def [symmetric] Let_def
        apply (simp only: if_False if_True simp_thms)
        apply (erule and_then_InlE)
         apply (drule migrations_chain_error)
         apply (simp add: option_error_def)
        apply (simp only: sum.distinct)
        done
    qed
  qed
qed

text \<open>
  Claim C5, as the code has it. For an options value that is not a string,
  \<^verbatim>\<open>migrateOptions\<close> throws the error with code \<^verbatim>\<open>ESLINT_INVALID_OPTIONS\<close> and a message
  starting with \<^verbatim>\<open>Invalid options:\<close> if and only if the value has an own property among
  the forbidden names; the message then lists every forbidden name present, joined by
  \<^verbatim>\<open>', '\<close>, in the order of the table \<^verbatim>\<open>forbiddenOptions\<close>, which is the order in which
  the code meets them (line 347).
\<close>

theorem migrateOptions_forbidden:
  assumes "typeof options \<noteq> ''string''"
  shows "((\<exists>names. migrateOptions d options =
             Inl (CodedError ''ESLINT_INVALID_OPTIONS'' (''Invalid options: '' @ names)))
          \<longleftrightarrow> (\<exists>name \<in> set forbiddenOptions. hasOwn options name))
       \<and> ((\<exists>name \<in> set forbiddenOptions. hasOwn options name) \<longrightarrow>
            migrateOptions d options =
              Inl (CodedError ''ESLINT_INVALID_OPTIONS''
                    (''Invalid options: '' @
                     js_join (filter (\<lambda>option. hasOwn options option) forbiddenOptions) '', '')))"
proof -
  have p: "(\<exists>name \<in> set forbiddenOptions. hasOwn options name) \<longleftrightarrow>
        filter (\<lambda>option. hasOwn options option) forbiddenOptions \<noteq> []"
    by (simp add: filter_empty_conv)
  show ?thesis
    unfolding p
    using migrateOptions_forbidden_present [OF assms, of d]
      migrateOptions_forbidden_absent [OF assms, of d]
    by blast
qed


theorem migrateOptions_forbidden_witness:
  "migrateOptions (JFun 0)
     (JObj [Name ''globInputPaths'' \<mapsto> JBool True, Name ''cache'' \<mapsto> JBool True]) =
   Inl (CodedError ''ESLINT_INVALID_OPTIONS'' ''Invalid options: cache, globInputPaths'')"
  using migrateOptions_forbidden
    [of "JObj [Name ''globInputPaths'' \<mapsto> JBool True, Name ''cache'' \<mapsto> JBool True]" "JFun 0"]
  by (simp add: hasOwn_def forbiddenOptions_def)

text \<open>
  The claim has the error code \<^verbatim>\<open>ESLINT_INVALID_OPTIONS\<close> raised only for a forbidden
  name. \<^verbatim>\<open>{ overrideConfig: 'foo' }\<close> has none, and \<^verbatim>\<open>migrateOptions\<close> throws an error with
  that code all the same (line 353).
\<close>

theorem migrateOptions_other_invalid_options_counterexample:
  "migrateOptions (JFun 0) (JObj [Name ''overrideConfig'' \<mapsto> JStr ''foo'']) =
     Inl (CodedError ''ESLINT_INVALID_OPTIONS'' ''Option overrideConfig must be an object or null'')
   \<and> filter (\<lambda>option. hasOwn (JObj [Name ''overrideConfig'' \<mapsto> JStr ''foo'']) option)
         forbiddenOptions = []"
  by (simp add: migrateOptions_eval)

subsection \<open>Legacy lists of environments and globals\<close>

lemma js_split_nonempty [simp]: "js_split s c \<noteq> []"
  by (induction s) (auto simp: Let_def)

lemma hd_js_split: "hd (js_split s c) = takeWhile (\<lambda>x. x \<noteq> c) s"
  by (induction s) (auto simp: Let_def)

lemma tl_js_split:
  "tl (js_split s c) =
     (if c \<in> set s then js_split (tl (dropWhile (\<lambda>x. x \<noteq> c) s)) c else [])"
  by (induction s) (auto simp: Let_def)

lemma length_js_split: "Suc 0 < length (js_split s c) \<longleftrightarrow> c \<in> set s"
proof -
  have "Suc 0 < length (js_split s c) \<longleftrightarrow> tl (js_split s c) \<noteq> []"
    by (cases "js_split s c") auto
  then show ?thesis
    by (simp add: tl_js_split)
qed

lemma second_js_split:
  assumes "c \<in> set s"
  shows "js_split s c ! Suc 0 = takeWhile (\<lambda>x. x \<noteq> c) (tl (dropWhile (\<lambda>x. x \<noteq> c) s))"
proof -
  have "js_split s c ! Suc 0 = hd (tl (js_split s c))"
    using assms length_js_split [of s c]
    by (cases "js_split s c") (auto simp: hd_conv_nth)
  with assms show ?thesis
    by (simp add: tl_js_split hd_js_split)
qed

lemma toBooleanMap_step_entry:
  "toBooleanMap_step d m (JStr e) =
     Inr (if entry_key e \<noteq> ''__proto__''
          then m(Name (entry_key e) \<mapsto> JBool (entry_bool d e))
          else m)"
  by (simp add: Let_def hd_js_split length_js_split second_js_split
        entry_key_def entry_bool_def entry_value_def)

lemma find_snoc:
  "find P (xs @ [x]) = (case find P xs of None \<Rightarrow> (if P x then Some x else None) | Some y \<Rightarrow> Some y)"
  by (induction xs) auto

lemma boolean_map_Nil [simp]: "boolean_map d [] = Map.empty"
  by (auto simp: boolean_map_def fun_eq_iff split: pkey.splits)

lemma boolean_map_Cons:
  "(if entry_key e \<noteq> ''__proto__'' then m(Name (entry_key e) \<mapsto> JBool (entry_bool d e)) else m)
     ++ boolean_map d es = m ++ boolean_map d (e # es)"
  by (rule ext)
     (auto simp: boolean_map_def map_add_def find_snoc split: pkey.splits option.splits)

lemma reduce_steps_entries:
  "reduce_steps (toBooleanMap_step d) (map JStr es) m = Inr (m ++ boolean_map d es)"
proof (induction es arbitrary: m)
  case Nil
  show ?case by simp
next
  case (Cons e es)
  show ?case
    by (simp only: list.map reduce_steps.simps toBooleanMap_step_entry sum.case Cons.IH
          boolean_map_Cons)
qed

lemma toBooleanMap_entries:
  assumes "es \<noteq> []"
  shows "toBooleanMap (JArr (map JStr es)) d n = Inr (JObj (boolean_map d es))"
  using assms by (simp add: toBooleanMap_def reduce_steps_entries)

lemma toBooleanMap_empty: "toBooleanMap (JArr []) d n = Inr JUndefined"
  by (simp add: toBooleanMap_def)


lemma migrateOption_Inr_fst:
  "migrateOption old new conv st = Inr st' \<Longrightarrow> fst st' = (fst st)(Name old := None)"
  by (auto simp: migrateOption_def Let_def split: if_splits elim!: and_then_InrE)

lemma migrateOption_Inr_snd:
  "migrateOption old new conv st = Inr st' \<Longrightarrow> k \<noteq> Name new \<Longrightarrow> snd st' k = snd st k"
  by (auto simp: migrateOption_def Let_def split: if_splits elim!: and_then_InrE)

lemma migrateOption_Inr_new:
  "migrateOption old new conv st = Inr st' \<Longrightarrow> lookup (fst st) (Name old) \<noteq> JUndefined \<Longrightarrow>
     \<exists>v. conv (lookup (fst st) (Name old)) = Inr v \<and> snd st' (Name new) = Some v"
  by (auto simp: migrateOption_def Let_def split: if_splits elim!: and_then_InrE)

lemma lookup_upd_other: "k \<noteq> k' \<Longrightarrow> lookup (m(k' := v)) k = lookup m k"
  by (simp add: lookup_def)

lemma migrations_chain_Inr:
  assumes "foldl and_then (Inr st0) migrations = Inr st"
  obtains x1 x2 x3 x4 x5 x6 x7 where
    "migrateOption ''envs'' ''env'' (\<lambda>envs. toBooleanMap envs True ''envs'') st0 = Inr x1"
    "migrateOption ''extends'' ''extends'' Inr x1 = Inr x2"
    "migrateOption ''globals'' ''globals'' (\<lambda>globals. toBooleanMap globals False ''globals'') x2
       = Inr x3"
    "migrateOption ''ignorePattern'' ''ignorePatterns'' Inr x3 = Inr x4"
    "migrateOption ''parser'' ''parser'' Inr x4 = Inr x5"
    "migrateOption ''parserOptions'' ''parserOptions'' Inr x5 = Inr x6"
    "(if isArray (lookup (fst x6) (Name ''plugins''))
      then migrateOption ''plugins'' ''plugins'' Inr x6 else Inr x6) = Inr x7"
    "migrateOption ''rules'' ''rules'' Inr x7 = Inr st"
  using assms unfolding migrations_def foldl_Cons foldl_Nil and_then_Inr
  by (elim and_then_InrE) blast

lemma plugins_step_snd:
  assumes "(if isArray (lookup (fst x) (Name ''plugins''))
      then migrateOption ''plugins'' ''plugins'' Inr x else Inr x) = Inr y"
    and "k \<noteq> Name ''plugins''"
  shows "snd y k = snd x k"
  using assms by (auto split: if_splits dest: migrateOption_Inr_snd)

lemma migrations_globals:
  assumes chain: "foldl and_then (Inr st0) migrations = Inr st"
    and g: "lookup (fst st0) (Name ''globals'') = JArr (map JStr es)"
    and ne: "es \<noteq> []"
  shows "snd st (Name ''globals'') = Some (JObj (boolean_map False es))"
proof -
  from chain obtain x1 x2 x3 x4 x5 x6 x7 where
    s1: "migrateOption ''envs'' ''env'' (\<lambda>envs. toBooleanMap envs True ''envs'') st0 = Inr x1" and
    s2: "migrateOption ''extends'' ''extends'' Inr x1 = Inr x2" and
    s3: "migrateOption ''globals'' ''globals''
           (\<lambda>globals. toBooleanMap globals False ''globals'') x2 = Inr x3" and
    s4: "migrateOption ''ignorePattern'' ''ignorePatterns'' Inr x3 = Inr x4" and
    s5: "migrateOption ''parser'' ''parser'' Inr x4 = Inr x5" and
    s6: "migrateOption ''parserOptions'' ''parserOptions'' Inr x5 = Inr x6" and
    s7: "(if isArray (lookup (fst x6) (Name ''plugins''))
          then migrateOption ''plugins'' ''plugins'' Inr x6 else Inr x6) = Inr x7" and
    s8: "migrateOption ''rules'' ''rules'' Inr x7 = Inr st"
    by (rule migrations_chain_Inr)
  have "lookup (fst x2) (Name ''globals'') = JArr (map JStr es)"
    using g by (simp add: migrateOption_Inr_fst [OF s1] migrateOption_Inr_fst [OF s2]
        lookup_upd_other)
  with migrateOption_Inr_new [OF s3] ne
  have "snd x3 (Name ''globals'') = Some (JObj (boolean_map False es))"
    by (simp add: toBooleanMap_entries)
  then show ?thesis
    by (simp add: migrateOption_Inr_snd [OF s4] migrateOption_Inr_snd [OF s5]
        migrateOption_Inr_snd [OF s6] plugins_step_snd [OF s7] migrateOption_Inr_snd [OF s8])
qed

lemma migrations_envs:
  assumes chain: "foldl and_then (Inr st0) migrations = Inr st"
    and g: "lookup (fst st0) (Name ''envs'') = JArr (map JStr es)"
    and ne: "es \<noteq> []"
  shows "snd st (Name ''env'') = Some (JObj (boolean_map True es))"
proof -
  from chain obtain x1 x2 x3 x4 x5 x6 x7 where
    s1: "migrateOption ''envs'' ''env'' (\<lambda>envs. toBooleanMap envs True ''envs'') st0 = Inr x1" and
    s2: "migrateOption ''extends'' ''extends'' Inr x1 = Inr x2" and
    s3: "migrateOption ''globals'' ''globals''
           (\<lambda>globals. toBooleanMap globals False ''globals'') x2 = Inr x3" and
    s4: "migrateOption ''ignorePattern'' ''ignorePatterns'' Inr x3 = Inr x4" and
    s5: "migrateOption ''parser'' ''parser'' Inr x4 = Inr x5" and
    s6: "migrateOption ''parserOptions'' ''parserOptions'' Inr x5 = Inr x6" and
    s7: "(if isArray (lookup (fst x6) (Name ''plugins''))
          then migrateOption ''plugins'' ''plugins'' Inr x6 else Inr x6) = Inr x7" and
    s8: "migrateOption ''rules'' ''rules'' Inr x7 = Inr st"
    by (rule migrations_chain_Inr)
  from migrateOption_Inr_new [OF s1] g ne
  have "snd x1 (Name ''env'') = Some (JObj (boolean_map True es))"
    by (simp add: toBooleanMap_entries)
  then show ?thesis
    by (simp add: migrateOption_Inr_snd [OF s2] migrateOption_Inr_snd [OF s3]
        migrateOption_Inr_snd [OF s4] migrateOption_Inr_snd [OF s5]
        migrateOption_Inr_snd [OF s6] plugins_step_snd [OF s7] migrateOption_Inr_snd [OF s8])
qed


text \<open>
  Claim C4, as the code has it. When \<^verbatim>\<open>migrateOptions\<close> returns for an options object whose
  \<^verbatim>\<open>globals\<close> (or \<^verbatim>\<open>envs\<close>) is a non-empty array of strings, \<^verbatim>\<open>overrideConfig.globals\<close>
  (or \<^verbatim>\<open>overrideConfig.env\<close>) of the result is the boolean map of the entries, with the
  default \<^verbatim>\<open>false\<close> for globals and \<^verbatim>\<open>true\<close> for environments.
\<close>

theorem migrateOptions_boolean_maps:
  assumes "typeof options \<noteq> ''string''"
    and "migrateOptions d options = Inr r"
    and "entries \<noteq> []"
  shows "(get_prop options (Name ''globals'') = JArr (map JStr entries) \<longrightarrow>
            get_prop (get_prop (get_prop r (Name ''eslintOptions'')) (Name ''overrideConfig''))
              (Name ''globals'') = JObj (boolean_map False entries))
       \<and> (get_prop options (Name ''envs'') = JArr (map JStr entries) \<longrightarrow>
            get_prop (get_prop (get_prop r (Name ''eslintOptions'')) (Name ''overrideConfig''))
              (Name ''env'') = JObj (boolean_map True entries))"
proof -
  obtain eo oc st where
    chain: "foldl and_then (Inr (eo, oc)) migrations = Inr st" and
    frame: "\<And>k. k \<notin> {ESLintKey, Name ''overrideConfig'', Name ''quiet'', Name ''warnFileIgnored'',
            Name ''warnIgnored'', Name ''configFile'', Name ''overrideConfigFile''}
        \<Longrightarrow> eo k = own_properties options k" and
    r: "r = JObj
       [Name ''ESLint'' \<mapsto>
          (if truthy (get_prop options ESLintKey) then get_prop options ESLintKey else d),
        Name ''eslintOptions'' \<mapsto>
          JObj ((fst st)(Name ''overrideConfig'' \<mapsto> JObj (snd st))),
        Name ''quiet'' \<mapsto> get_prop options (Name ''quiet''),
        Name ''warnIgnored'' \<mapsto>
          (if get_prop options (Name ''warnFileIgnored'') \<noteq> JUndefined
           then get_prop options (Name ''warnFileIgnored'')
           else get_prop options (Name ''warnIgnored''))]"
    by (rule migrateOptions_Inr [OF assms(1,2)]) (rule that, assumption+)
  have oc: "get_prop (get_prop (get_prop r (Name ''eslintOptions'')) (Name ''overrideConfig'')) k
      = lookup (snd st) k" for k
    by (simp add: r get_prop_def lookup_def)
  have g: "lookup (fst (eo, oc)) (Name ''globals'') = get_prop options (Name ''globals'')"
    by (simp add: lookup_def get_prop_def frame)
  have e: "lookup (fst (eo, oc)) (Name ''envs'') = get_prop options (Name ''envs'')"
    by (simp add: lookup_def get_prop_def frame)
  show ?thesis
    unfolding oc
    using migrations_globals [OF chain _ assms(3)] migrations_envs [OF chain _ assms(3)]
    by (simp only: g e) (simp add: lookup_def)
qed

lemma boolean_map_example:
  "boolean_map False [''$'', ''jQuery:true''] = [Name ''$'' \<mapsto> JBool False, Name ''jQuery'' \<mapsto> JBool True]"
  by (rule ext)
     (auto simp: boolean_map_def entry_key_def entry_bool_def entry_value_def split: pkey.splits)

theorem migrateOptions_boolean_maps_witness:
  "\<exists>r. migrateOptions (JFun 0)
         (JObj [Name ''globals'' \<mapsto> JArr [JStr ''$'', JStr ''jQuery:true'']]) = Inr r
       \<and> get_prop (get_prop (get_prop r (Name ''eslintOptions'')) (Name ''overrideConfig''))
             (Name ''globals'')
           = JObj [Name ''$'' \<mapsto> JBool False, Name ''jQuery'' \<mapsto> JBool True]"
proof -
  let ?options = "JObj [Name ''globals'' \<mapsto> JArr [JStr ''$'', JStr ''jQuery:true'']]"
  obtain r where r: "migrateOptions (JFun 0) ?options = Inr r"
    by (simp add: migrateOptions_eval)
  have t: "typeof ?options \<noteq> ''string''"
    by simp
  have n: "[''$'', ''jQuery:true''] \<noteq> []"
    by simp
  from migrateOptions_boolean_maps [OF t r n]
  have "get_prop (get_prop (get_prop r (Name ''eslintOptions'')) (Name ''overrideConfig''))
             (Name ''globals'')
           = JObj [Name ''$'' \<mapsto> JBool False, Name ''jQuery'' \<mapsto> JBool True]"
    by (simp add: get_prop_def lookup_def boolean_map_example)
  with r show ?thesis by blast
qed

text \<open>
  For the empty array the value under \<^verbatim>\<open>globals\<close> (or \<^verbatim>\<open>env\<close>) is \<^verbatim>\<open>undefined\<close>, whatever the
  other options are.
\<close>

lemma migrateOptions_empty_arrays:
  assumes "typeof options \<noteq> ''string''"
    and "migrateOptions d options = Inr r"
  shows "(get_prop options (Name ''globals'') = JArr [] \<longrightarrow>
            get_prop (get_prop (get_prop r (Name ''eslintOptions'')) (Name ''overrideConfig''))
              (Name ''globals'') = JUndefined)
       \<and> (get_prop options (Name ''envs'') = JArr [] \<longrightarrow>
            get_prop (get_prop (get_prop r (Name ''eslintOptions'')) (Name ''overrideConfig''))
              (Name ''env'') = JUndefined)"
proof -
  obtain eo oc st where
    chain: "foldl and_then (Inr (eo, oc)) migrations = Inr st" and
    frame: "\<And>k. k \<notin> {ESLintKey, Name ''overrideConfig'', Name ''quiet'', Name ''warnFileIgnored'',
            Name ''warnIgnored'', Name ''configFile'', Name ''overrideConfigFile''}
        \<Longrightarrow> eo k = own_properties options k" and
    r: "r = JObj
       [Name ''ESLint'' \<mapsto>
          (if truthy (get_prop options ESLintKey) then get_prop options ESLintKey else d),
        Name ''eslintOptions'' \<mapsto>
          JObj ((fst st)(Name ''overrideConfig'' \<mapsto> JObj (snd st))),
        Name ''quiet'' \<mapsto> get_prop options (Name ''quiet''),
        Name ''warnIgnored'' \<mapsto>
          (if get_prop options (Name ''warnFileIgnored'') \<noteq> JUndefined
           then get_prop options (Name ''warnFileIgnored'')
           else get_prop options (Name ''warnIgnored''))]"
    by (rule migrateOptions_Inr [OF assms(1,2)]) (rule that, assumption+)
  have oc: "get_prop (get_prop (get_prop r (Name ''eslintOptions'')) (Name ''overrideConfig'')) k
      = lookup (snd st) k" for k
    by (simp add: r get_prop_def lookup_def)
  have g: "lookup (fst (eo, oc)) (Name ''globals'') = get_prop options (Name ''globals'')"
    by (simp add: lookup_def get_prop_def frame)
  have e: "lookup (fst (eo, oc)) (Name ''envs'') = get_prop options (Name ''envs'')"
    by (simp add: lookup_def get_prop_def frame)
  from chain obtain x1 x2 x3 x4 x5 x6 x7 where
    s1: "migrateOption ''envs'' ''env'' (\<lambda>envs. toBooleanMap envs True ''envs'') (eo, oc) = Inr x1" and
    s2: "migrateOption ''extends'' ''extends'' Inr x1 = Inr x2" and
    s3: "migrateOption ''globals'' ''globals''
           (\<lambda>globals. toBooleanMap globals False ''globals'') x2 = Inr x3" and
    s4: "migrateOption ''ignorePattern'' ''ignorePatterns'' Inr x3 = Inr x4" and
    s5: "migrateOption ''parser'' ''parser'' Inr x4 = Inr x5" and
    s6: "migrateOption ''parserOptions'' ''parserOptions'' Inr x5 = Inr x6" and
    s7: "(if isArray (lookup (fst x6) (Name ''plugins''))
          then migrateOption ''plugins'' ''plugins'' Inr x6 else Inr x6) = Inr x7" and
    s8: "migrateOption ''rules'' ''rules'' Inr x7 = Inr st"
    by (rule migrations_chain_Inr)
  have globals: "lookup (snd st) (Name ''globals'') = JUndefined"
    if "get_prop options (Name ''globals'') = JArr []"
  proof -
    have "lookup (fst x2) (Name ''globals'') = JArr []"
      using g that by (simp add: migrateOption_Inr_fst [OF s1] migrateOption_Inr_fst [OF s2]
          lookup_upd_other)
    with migrateOption_Inr_new [OF s3]
    have "snd x3 (Name ''globals'') = Some JUndefined"
      by (simp add: toBooleanMap_empty)
    then have "snd st (Name ''globals'') = Some JUndefined"
      by (simp add: migrateOption_Inr_snd [OF s4] migrateOption_Inr_snd [OF s5]
          migrateOption_Inr_snd [OF s6] plugins_step_snd [OF s7] migrateOption_Inr_snd [OF s8])
    then show ?thesis
      by (simp add: lookup_def)
  qed
  have envs: "lookup (snd st) (Name ''env'') = JUndefined"
    if "get_prop options (Name ''envs'') = JArr []"
  proof -
    from migrateOption_Inr_new [OF s1] e that
    have "snd x1 (Name ''env'') = Some JUndefined"
      by (simp add: toBooleanMap_empty)
    then have "snd st (Name ''env'') = Some JUndefined"
      by (simp add: migrateOption_Inr_snd [OF s2] migrateOption_Inr_snd [OF s3]
          migrateOption_Inr_snd [OF s4] migrateOption_Inr_snd [OF s5]
          migrateOption_Inr_snd [OF s6] plugins_step_snd [OF s7] migrateOption_Inr_snd [OF s8])
    then show ?thesis
      by (simp add: lookup_def)
  qed
  show ?thesis
    unfolding oc using globals envs by blast
qed

text \<open>
  The claim speaks of every string array. For the empty array \<^verbatim>\<open>toBooleanMap\<close> returns
  \<^verbatim>\<open>undefined\<close> (the guard \<^verbatim>\<open>keys.length > 0\<close> of line 311), so \<^verbatim>\<open>{ globals: [] }\<close> gives
  \<^verbatim>\<open>overrideConfig.globals === undefined\<close>, which is not the empty map.
\<close>

theorem migrateOptions_empty_array_counterexample:
  "\<exists>r. migrateOptions (JFun 0) (JObj [Name ''globals'' \<mapsto> JArr (map JStr [])]) = Inr r
       \<and> get_prop (get_prop (get_prop r (Name ''eslintOptions'')) (Name ''overrideConfig''))
             (Name ''globals'') = JUndefined
       \<and> get_prop (get_prop (get_prop r (Name ''eslintOptions'')) (Name ''overrideConfig''))
             (Name ''globals'') \<noteq> JObj (boolean_map False [])"
  by (simp add: migrateOptions_eval)

section \<open>Properties of the result model\<close>

subsection \<open>Filtering a result\<close>

lemma filter_from_zip:
  "filter_from i callback xs =
     map fst (filter (\<lambda>(x, j). truthy (callback x j)) (zip xs [i..<i + length xs]))"
proof (induction xs arbitrary: i)
  case Nil
  show ?case by simp
next
  case (Cons x xs)
  have "[i..<i + length (x # xs)] = i # [Suc i..<Suc i + length xs]"
    by (subst upt_rec) simp
  then show ?case
    by (simp add: Cons.IH)
qed

lemma js_filter_zip:
  "js_filter callback thisArg xs =
     map fst (filter (\<lambda>(x, j). truthy (callback thisArg x j xs)) (zip xs [0..<length xs]))"
  by (simp add: js_filter_def filter_from_zip)

lemma foldl_count:
  "foldl (\<lambda>c m. c + Number (P m)) n xs = n + length (filter P xs)"
  by (induction xs arbitrary: n) (simp_all add: Number_def)

lemma reduce_countErrorMessage:
  "foldl countErrorMessage 0 ms = length (filter (\<lambda>m. severity m > 1) ms)"
  using foldl_count [of isErrorMessage 0 ms]
  by (simp add: countErrorMessage_def [abs_def] isErrorMessage_def [abs_def])

lemma reduce_countWarningMessage:
  "foldl countWarningMessage 0 ms = length (filter (\<lambda>m. severity m = 1) ms)"
  using foldl_count [of isWarningMessage 0 ms]
  by (simp add: countWarningMessage_def [abs_def] isWarningMessage_def [abs_def])

lemma reduce_countFixableErrorMessage:
  "foldl countFixableErrorMessage 0 ms =
     length (filter (\<lambda>m. severity m > 1 \<and> fix_payload m \<noteq> JUndefined) ms)"
  using foldl_count [of "\<lambda>m. isErrorMessage m \<and> fix_payload m \<noteq> JUndefined" 0 ms]
  by (simp add: countFixableErrorMessage_def [abs_def] isErrorMessage_def [abs_def])

lemma reduce_countFixableWarningMessage:
  "foldl countFixableWarningMessage 0 ms =
     length (filter (\<lambda>m. severity m = 1 \<and> fix_payload m \<noteq> JUndefined) ms)"
  using foldl_count [of "\<lambda>m. isWarningMessage m \<and> fix_payload m \<noteq> JUndefined" 0 ms]
  by (simp add: countFixableWarningMessage_def [abs_def] isWarningMessage_def [abs_def])

lemma reduce_countFatalErrorMessage:
  "foldl countFatalErrorMessage 0 ms =
     length (filter (\<lambda>m. severity m > 1 \<and> truthy (fatal m)) ms)"
  using foldl_count [of "\<lambda>m. isErrorMessage m \<and> truthy (fatal m)" 0 ms]
  by (simp add: countFatalErrorMessage_def [abs_def] isErrorMessage_def [abs_def])

lemmas reduce_counts =
  reduce_countErrorMessage reduce_countWarningMessage reduce_countFixableErrorMessage
  reduce_countFixableWarningMessage reduce_countFatalErrorMessage

lemma deref_alloc_new: "deref (snd (alloc s c)) (fst (alloc s c)) = Some c"
  by (simp add: deref_def alloc_def)

lemma deref_alloc_old: "a < length s \<Longrightarrow> deref (snd (alloc s c)) a = deref s a"
  by (simp add: deref_def alloc_def nth_append)

lemma deref_Some_less: "deref s a = Some c \<Longrightarrow> a < length s"
  by (simp add: deref_def split: if_splits)

text \<open>
  Claim C2. For a result object \<open>r\<close> and a predicate \<open>p\<close>, \<^verbatim>\<open>filterResult\<close> returns a result
  whose messages are the messages of \<open>r\<close>, in their order, for which \<open>p\<close>, called with \<open>r\<close>
  as its \<^verbatim>\<open>this\<close> and with the message, its index and the message list of \<open>r\<close>, answers
  with a truthy value; its five counts are those of the kept messages: errors have a
  severity above 1, warnings the severity 1, the fixable ones a \<^verbatim>\<open>fix\<close> other than
  \<^verbatim>\<open>undefined\<close>, the fatal errors a truthy \<^verbatim>\<open>fatal\<close>. The file path and the other
  properties are those of \<open>r\<close>.
\<close>

theorem filterResult_counts:
  assumes "deref s result = Some (ResultObject r)"
  shows "\<exists>a s' r'.
           filterResult s result p = Inr (a, s') \<and> deref s' a = Some (ResultObject r')
         \<and> messages r' =
             map fst (filter (\<lambda>(m, i). truthy (p r m i (messages r)))
                        (zip (messages r) [0..<length (messages r)]))
         \<and> errorCount r' = length (filter (\<lambda>m. severity m > 1) (messages r'))
         \<and> warningCount r' = length (filter (\<lambda>m. severity m = 1) (messages r'))
         \<and> fixableErrorCount r' =
             length (filter (\<lambda>m. severity m > 1 \<and> fix_payload m \<noteq> JUndefined) (messages r'))
         \<and> fixableWarningCount r' =
             length (filter (\<lambda>m. severity m = 1 \<and> fix_payload m \<noteq> JUndefined) (messages r'))
         \<and> fatalErrorCount r' =
             length (filter (\<lambda>m. severity m > 1 \<and> truthy (fatal m)) (messages r'))
         \<and> filePath r' = filePath r \<and> other r' = other r"
proof -
  define ms where "ms = js_filter p r (messages r)"
  define r' where "r' = r
      \<lparr>messages := ms,
       errorCount := foldl countErrorMessage 0 ms,
       warningCount := foldl countWarningMessage 0 ms,
       fixableErrorCount := foldl countFixableErrorMessage 0 ms,
       fixableWarningCount := foldl countFixableWarningMessage 0 ms,
       fatalErrorCount := foldl countFatalErrorMessage 0 ms\<rparr>"
  have call: "filterResult s result p = Inr (alloc s (ResultObject r'))"
    using assms by (simp add: filterResult_def Let_def r'_def ms_def)
  have "filterResult s result p =
      Inr (fst (alloc s (ResultObject r')), snd (alloc s (ResultObject r')))"
    by (simp add: call)
  moreover have "deref (snd (alloc s (ResultObject r'))) (fst (alloc s (ResultObject r')))
      = Some (ResultObject r')"
    by (rule deref_alloc_new)
  moreover have "messages r' =
      map fst (filter (\<lambda>(m, i). truthy (p r m i (messages r)))
                 (zip (messages r) [0..<length (messages r)]))"
    by (simp add: r'_def ms_def js_filter_zip)
  moreover have "errorCount r' = length (filter (\<lambda>m. severity m > 1) (messages r'))"
    by (simp add: r'_def reduce_counts)
  moreover have "warningCount r' = length (filter (\<lambda>m. severity m = 1) (messages r'))"
    by (simp add: r'_def reduce_counts)
  moreover have "fixableErrorCount r' =
      length (filter (\<lambda>m. severity m > 1 \<and> fix_payload m \<noteq> JUndefined) (messages r'))"
    by (simp add: r'_def reduce_counts)
  moreover have "fixableWarningCount r' =
      length (filter (\<lambda>m. severity m = 1 \<and> fix_payload m \<noteq> JUndefined) (messages r'))"
    by (simp add: r'_def reduce_counts)
  moreover have "fatalErrorCount r' =
      length (filter (\<lambda>m. severity m > 1 \<and> truthy (fatal m)) (messages r'))"
    by (simp add: r'_def reduce_counts)
  moreover have "filePath r' = filePath r" and "other r' = other r"
    by (simp_all add: r'_def)
  ultimately show ?thesis
    by blast
qed

text \<open>
  Claim C8. A call of \<^verbatim>\<open>filterResult\<close> that returns leaves the result object it was
  given as it was, messages and counts included, and every other object of the store
  as well; the result it returns is a new object, at an address that was not in use.
\<close>

theorem filterResult_frame:
  assumes "filterResult s result p = Inr (a, s')"
  shows "deref s' result = deref s result \<and> (\<exists>r. deref s result = Some (ResultObject r))
       \<and> a \<noteq> result \<and> deref s a = None
       \<and> (\<forall>b. deref s b \<noteq> None \<longrightarrow> deref s' b = deref s b)"
proof -
  from assms obtain r where r: "deref s result = Some (ResultObject r)"
    by (auto simp: filterResult_def split: option.splits cell.splits)
  with assms obtain c where a: "a = length s" and s': "s' = s @ [c]"
    by (auto simp: filterResult_def Let_def alloc_def)
  from r have "result < length s"
    by (rule deref_Some_less)
  with r a s' show ?thesis
    by (auto simp: deref_def nth_append)
qed


lemmas example_defs = example_result_def example_messages_def skip_first_def

theorem filterResult_counts_witness:
  "\<exists>a s' r'.
     filterResult [ResultObject example_result] 0 skip_first = Inr (a, s')
     \<and> deref s' a = Some (ResultObject r')
     \<and> map message (messages r') = [''no-extra-semi'', ''semi'', ''no-console'']
     \<and> errorCount r' = 1 \<and> warningCount r' = 2 \<and> fixableErrorCount r' = 1
     \<and> fixableWarningCount r' = 1 \<and> fatalErrorCount r' = 0"
proof -
  have d: "deref [ResultObject example_result] 0 = Some (ResultObject example_result)"
    by (simp add: deref_def)
  have u: "[0..<length (messages example_result)] = [0, 1, 2, 3]"
    by (simp add: example_defs upt_rec)
  from filterResult_counts [OF d, of skip_first] obtain a s' r' where
    "filterResult [ResultObject example_result] 0 skip_first = Inr (a, s')"
    "deref s' a = Some (ResultObject r')"
    "messages r' =
       map fst (filter (\<lambda>(m, i). truthy (skip_first example_result m i (messages example_result)))
                  (zip (messages example_result) [0..<length (messages example_result)]))"
    "errorCount r' = length (filter (\<lambda>m. severity m > 1) (messages r'))"
    "warningCount r' = length (filter (\<lambda>m. severity m = 1) (messages r'))"
    "fixableErrorCount r' =
       length (filter (\<lambda>m. severity m > 1 \<and> fix_payload m \<noteq> JUndefined) (messages r'))"
    "fixableWarningCount r' =
       length (filter (\<lambda>m. severity m = 1 \<and> fix_payload m \<noteq> JUndefined) (messages r'))"
    "fatalErrorCount r' =
       length (filter (\<lambda>m. severity m > 1 \<and> truthy (fatal m)) (messages r'))"
    by blast
  then show ?thesis
    unfolding u by (intro exI [of _ a] exI [of _ s'] exI [of _ r']) (simp add: example_defs)
qed

theorem filterResult_frame_witness:
  "\<exists>a s'.
     filterResult [ResultObject example_result] 0 skip_first = Inr (a, s')
     \<and> deref s' 0 = Some (ResultObject example_result) \<and> a \<noteq> 0"
proof -
  obtain a s' where r: "filterResult [ResultObject example_result] 0 skip_first = Inr (a, s')"
    by (simp add: filterResult_def deref_def Let_def alloc_def)
  from filterResult_frame [OF r] have "deref s' 0 = deref [ResultObject example_result] 0" "a \<noteq> 0"
    by simp_all
  with r show ?thesis
    by (simp add: deref_def)
qed

subsection \<open>Results for ignored files\<close>

text \<open>
  Claim C6. \<^verbatim>\<open>createIgnoreResult\<close> returns one message, of severity 1 and with \<^verbatim>\<open>fatal\<close>
  false; the counts are 0 errors, 1 warning, 0 fixable errors, 0 fixable warnings and 0
  fatal errors, which are the counts \<^verbatim>\<open>filterResult\<close> would compute from that message.
\<close>

theorem createIgnoreResult_one_warning:
  "(\<exists>text. messages (createIgnoreResult relative file baseDir) =
            [\<lparr>severity = 1, fatal = JBool False, fix_payload = JUndefined, message = text\<rparr>])
   \<and> errorCount (createIgnoreResult relative file baseDir) = 0
   \<and> warningCount (createIgnoreResult relative file baseDir) = 1
   \<and> fixableErrorCount (createIgnoreResult relative file baseDir) = 0
   \<and> fixableWarningCount (createIgnoreResult relative file baseDir) = 0
   \<and> fatalErrorCount (createIgnoreResult relative file baseDir) = 0
   \<and> errorCount (createIgnoreResult relative file baseDir) =
       foldl countErrorMessage 0 (messages (createIgnoreResult relative file baseDir))
   \<and> warningCount (createIgnoreResult relative file baseDir) =
       foldl countWarningMessage 0 (messages (createIgnoreResult relative file baseDir))
   \<and> fixableErrorCount (createIgnoreResult relative file baseDir) =
       foldl countFixableErrorMessage 0 (messages (createIgnoreResult relative file baseDir))
   \<and> fixableWarningCount (createIgnoreResult relative file baseDir) =
       foldl countFixableWarningMessage 0 (messages (createIgnoreResult relative file baseDir))
   \<and> fatalErrorCount (createIgnoreResult relative file baseDir) =
       foldl countFatalErrorMessage 0 (messages (createIgnoreResult relative file baseDir))
   \<and> filePath (createIgnoreResult relative file baseDir) = file"
  by (simp add: createIgnoreResult_def Let_def countErrorMessage_def countWarningMessage_def
        countFixableErrorMessage_def countFixableWarningMessage_def countFatalErrorMessage_def
        isErrorMessage_def isWarningMessage_def Number_def)

theorem createIgnoreResult_one_warning_witness:
  "messages (createIgnoreResult (\<lambda>baseDir file. ''src/a.js'') ''/base/src/a.js'' ''/base'') =
     [\<lparr>severity = 1, fatal = JBool False, fix_payload = JUndefined, message = pattern_message\<rparr>]
   \<and> warningCount
       (createIgnoreResult (\<lambda>baseDir file. ''src/a.js'') ''/base/src/a.js'' ''/base'') = 1"
  using createIgnoreResult_one_warning
    [of "\<lambda>baseDir file. ''src/a.js''" "''/base/src/a.js''" "''/base''"]
  by (simp add: createIgnoreResult_def Let_def isHiddenRegExp_test_def
        isInNodeModulesRegExp_test_def is_separator_def dot_here_def node_modules_here_def)

subsection \<open>Tagged errors\<close>

text \<open>
  What \<^verbatim>\<open>createPluginError\<close> does return: an instance of \<^verbatim>\<open>PluginError\<close> as it is, so that
  wrapping what it returned returns the same; a wrapper of \<^verbatim>\<open>'Unknown Error'\<close> for \<^verbatim>\<open>null\<close>
  and \<^verbatim>\<open>undefined\<close>; for an \<^verbatim>\<open>Error\<close> with a message, and for a truthy value that is not
  an object, a wrapper of it with \<^verbatim>\<open>showStack\<close> set.
\<close>

lemma createPluginError_instance: "createPluginError (PluginErrorInstance e) = Inr e"
  by (simp add: createPluginError_def)

lemma createPluginError_again:
  "createPluginError x = Inr e \<Longrightarrow> createPluginError (PluginErrorInstance e) = Inr e"
  by (simp add: createPluginError_def)

lemma createPluginError_nullish:
  "nullish v \<Longrightarrow> createPluginError (OtherValue v) =
     Inr \<lparr>plugin = ''gulp-eslint-new'', error_message = JStr ''Unknown Error'',
          showStack = JBool True\<rparr>"
  by (simp add: createPluginError_def new_PluginError_def finish_PluginError_def)

lemma createPluginError_Error:
  "m \<noteq> [] \<Longrightarrow> createPluginError (ErrorInstance m) =
     Inr \<lparr>plugin = ''gulp-eslint-new'', error_message = JStr m, showStack = JBool True\<rparr>"
  by (simp add: createPluginError_def new_PluginError_def finish_PluginError_def)

lemma createPluginError_truthy:
  "typeof v \<noteq> ''object'' \<Longrightarrow> truthy v \<Longrightarrow> createPluginError (OtherValue v) =
     Inr \<lparr>plugin = ''gulp-eslint-new'', error_message = v, showStack = JBool True\<rparr>"
  by (cases v) (simp_all add: createPluginError_def new_PluginError_def finish_PluginError_def)

text \<open>
  Claim C7 says that \<^verbatim>\<open>createPluginError\<close> returns a \<^verbatim>\<open>PluginError\<close> with \<^verbatim>\<open>showStack\<close> set for
  every value, as the documentation of \<^verbatim>\<open>createTransform\<close> does (line 173: errors thrown
  by the handlers will be wrapped in a \<^verbatim>\<open>PluginError\<close> and emitted from the stream). The
  code replaces \<^verbatim>\<open>null\<close> and \<^verbatim>\<open>undefined\<close> by a message and no other falsy value: for the
  empty string the constructor throws, so that \<^verbatim>\<open>createPluginError\<close> throws inside the
  \<^verbatim>\<open>catch\<close> block of \<^verbatim>\<open>awaitHandler\<close> and \<^verbatim>\<open>done\<close> is never called; and for the plain object
  \<^verbatim>\<open>{ message: 'm' }\<close> the \<^verbatim>\<open>PluginError\<close> it returns has \<^verbatim>\<open>showStack\<close> false.
\<close>

theorem createPluginError_falsy_message:
  "createPluginError (OtherValue (JStr [])) = Inl (PlainError ''Missing error message'')
   \<and> awaitHandler (Inl (OtherValue (JStr [])) :: thrown + unit) () =
       NeverCalled (PlainError ''Missing error message'')
   \<and> createPluginError (OtherValue (JObj [Name ''message'' \<mapsto> JStr ''m''])) =
       Inr \<lparr>plugin = ''gulp-eslint-new'', error_message = JStr ''m'', showStack = JBool False\<rparr>"
  by (simp add: createPluginError_def awaitHandler_def new_PluginError_def
        finish_PluginError_def lookup_def)

subsection \<open>The reason a file is ignored\<close>

lemma path_segments_nonempty [simp]: "path_segments s \<noteq> []"
  by (induction s) (auto simp: Let_def)

lemma hd_path_segments: "hd (path_segments s) = takeWhile (\<lambda>c. \<not> is_separator c) s"
  by (induction s) (auto simp: Let_def)

lemma tl_path_segments_empty:
  "tl (path_segments s) = [] \<longleftrightarrow> (\<forall>c \<in> set s. \<not> is_separator c)"
  by (induction s) (auto simp: Let_def)

lemma dot_not_separator [simp]: "\<not> is_separator CHR ''.''"
  by (simp add: is_separator_def)

lemma hidden_first_segment:
  assumes "\<not> is_separator c"
  shows "hidden_segment (c # hd (path_segments cs)) \<longleftrightarrow> dot_here (c # cs)"
proof (cases cs)
  case Nil
  then show ?thesis by (simp add: hidden_segment_def dot_here_def)
next
  case (Cons d ds)
  then show ?thesis
    by (cases "is_separator d") (auto simp: hidden_segment_def dot_here_def hd_path_segments)
qed

lemma separator_not_dot_here: "is_separator c \<Longrightarrow> \<not> dot_here (c # cs)"
  by (auto simp: dot_here_def)

lemma hidden_scan_segments:
  "lookbehind_scan dot_here prev s =
     (if not_after_other prev then \<exists>seg \<in> set (path_segments s). hidden_segment seg
      else \<exists>seg \<in> set (tl (path_segments s)). hidden_segment seg)"
proof (induction s arbitrary: prev)
  case Nil
  show ?case by (simp add: hidden_segment_def dot_here_def)
next
  case (Cons c cs)
  show ?case
  proof (cases "is_separator c")
    case True
    then show ?thesis
      by (simp add: Cons.IH separator_not_dot_here hidden_segment_def Let_def)
  next
    case False
    have segs: "path_segments (c # cs) = (c # hd (path_segments cs)) # tl (path_segments cs)"
      using False by (simp add: Let_def)
    show ?thesis
      unfolding lookbehind_scan.simps segs Cons.IH
      using False hidden_first_segment [OF False, of cs]
      by simp
  qed
qed

lemma isHiddenRegExp_test_segments:
  "isHiddenRegExp_test s \<longleftrightarrow> (\<exists>seg \<in> set (path_segments s). hidden_segment seg)"
  by (simp add: isHiddenRegExp_test_def hidden_scan_segments)

lemma node_modules_no_separator: "\<forall>c \<in> set ''node_modules''. \<not> is_separator c"
  by (simp add: is_separator_def)

lemma takeWhile_stop:
  "\<forall>x \<in> set xs. P x \<Longrightarrow> \<not> P d \<Longrightarrow> takeWhile P (xs @ d # r) = xs"
  by (induction xs) auto

lemma node_modules_here_segments:
  "node_modules_here s \<longleftrightarrow>
     (hd (path_segments s) = ''node_modules'' \<and> tl (path_segments s) \<noteq> [])"
proof
  assume "node_modules_here s"
  then obtain d r where t: "take 12 s = ''node_modules''" and d: "drop 12 s = d # r"
    and sep: "is_separator d"
    by (auto simp: node_modules_here_def split: list.splits)
  have "s = take 12 s @ drop 12 s"
    by simp
  then have s: "s = ''node_modules'' @ d # r"
    unfolding t d .
  have "takeWhile (\<lambda>c. \<not> is_separator c) (''node_modules'' @ d # r) = ''node_modules''"
    using node_modules_no_separator sep by (intro takeWhile_stop) simp_all
  moreover have "\<not> (\<forall>c \<in> set s. \<not> is_separator c)"
    unfolding s using sep by auto
  ultimately show "hd (path_segments s) = ''node_modules'' \<and> tl (path_segments s) \<noteq> []"
    unfolding hd_path_segments tl_path_segments_empty s by blast
next
  assume r: "hd (path_segments s) = ''node_modules'' \<and> tl (path_segments s) \<noteq> []"
  then have tw: "takeWhile (\<lambda>c. \<not> is_separator c) s = ''node_modules''"
    by (simp only: hd_path_segments)
  from r have "\<exists>c \<in> set s. is_separator c"
    by (simp add: tl_path_segments_empty)
  then have dw: "dropWhile (\<lambda>c. \<not> is_separator c) s \<noteq> []"
    by auto
  then obtain d rest where d: "dropWhile (\<lambda>c. \<not> is_separator c) s = d # rest"
    by (cases "dropWhile (\<lambda>c. \<not> is_separator c) s") auto
  have sep: "is_separator d"
    using hd_dropWhile [OF dw] d by simp
  have s: "s = ''node_modules'' @ d # rest"
    using takeWhile_dropWhile_id [of "\<lambda>c. \<not> is_separator c" s] unfolding tw d by simp
  show "node_modules_here s"
    unfolding node_modules_here_def s using sep by simp
qed

lemma separator_not_node_modules_here: "is_separator c \<Longrightarrow> \<not> node_modules_here (c # cs)"
  by (auto simp: node_modules_here_def is_separator_def)

lemma node_modules_scan_segments:
  "lookbehind_scan node_modules_here prev s =
     (if not_after_other prev then ''node_modules'' \<in> set (butlast (path_segments s))
      else ''node_modules'' \<in> set (butlast (tl (path_segments s))))"
proof (induction s arbitrary: prev)
  case Nil
  show ?case by (simp add: node_modules_here_def)
next
  case (Cons c cs)
  show ?case
  proof (cases "is_separator c")
    case True
    then show ?thesis
      by (simp add: Cons.IH separator_not_node_modules_here Let_def)
  next
    case False
    have segs: "path_segments (c # cs) = (c # hd (path_segments cs)) # tl (path_segments cs)"
      using False by (simp add: Let_def)
    have here: "node_modules_here (c # cs)
        \<longleftrightarrow> (c # hd (path_segments cs) = ''node_modules'' \<and> tl (path_segments cs) \<noteq> [])"
      unfolding node_modules_here_segments segs by simp
    show ?thesis
      unfolding lookbehind_scan.simps here segs Cons.IH
      using False by auto
  qed
qed

lemma isInNodeModulesRegExp_test_segments:
  "isInNodeModulesRegExp_test s \<longleftrightarrow> ''node_modules'' \<in> set (butlast (path_segments s))"
  by (simp add: isInNodeModulesRegExp_test_def node_modules_scan_segments)


lemma ignore_messages_distinct:
  "hidden_message \<noteq> node_modules_message" "hidden_message \<noteq> pattern_message"
  "node_modules_message \<noteq> pattern_message"
  by (simp_all add: hidden_message_def node_modules_message_def pattern_message_def)

text \<open>
  Claim C3, as the code has it. The message is chosen from the segments of the path
  relative to the base directory, in this order: the hidden-path message if a segment
  starts with a dot that is not followed by a second dot; otherwise the
  \<^verbatim>\<open>node_modules\<close> message if a segment other than the last is \<^verbatim>\<open>node_modules\<close>; otherwise
  the message about a matching ignore pattern.
\<close>

theorem createIgnoreResult_reason:
  "map message (messages (createIgnoreResult relative file baseDir)) =
     [if \<exists>seg \<in> set (path_segments (relative baseDir file)). hidden_segment seg
      then hidden_message
      else if ''node_modules'' \<in> set (butlast (path_segments (relative baseDir file)))
      then node_modules_message
      else pattern_message]"
  by (simp add: createIgnoreResult_def Let_def isHiddenRegExp_test_segments
        isInNodeModulesRegExp_test_segments)

theorem createIgnoreResult_reason_witness:
  "map message (messages (createIgnoreResult (\<lambda>baseDir file. file) ''.hidden/file.js'' ''.''))
     = [hidden_message]
   \<and> map message (messages (createIgnoreResult (\<lambda>baseDir file. file) ''node_modules/pkg/a.js'' ''.''))
     = [node_modules_message]
   \<and> map message (messages (createIgnoreResult (\<lambda>baseDir file. file) ''src/a.js'' ''.''))
     = [pattern_message]
   \<and> map message (messages (createIgnoreResult (\<lambda>baseDir file. file) ''node_modules/.bin/x.js'' ''.''))
     = [hidden_message]"
  using createIgnoreResult_reason [of "\<lambda>baseDir file. file" "''.hidden/file.js''" "''.''"]
    createIgnoreResult_reason [of "\<lambda>baseDir file. file" "''node_modules/pkg/a.js''" "''.''"]
    createIgnoreResult_reason [of "\<lambda>baseDir file. file" "''src/a.js''" "''.''"]
    createIgnoreResult_reason [of "\<lambda>baseDir file. file" "''node_modules/.bin/x.js''" "''.''"]
  by (simp add: is_separator_def hidden_segment_def Let_def)

text \<open>
  The claim takes every segment that starts with a dot and is not \<^verbatim>\<open>..\<close> for hidden, and
  every \<^verbatim>\<open>node_modules\<close> segment for a reason. The segment \<^verbatim>\<open>..foo\<close> starts with a dot and
  is not \<^verbatim>\<open>..\<close>, and a file named \<^verbatim>\<open>node_modules\<close> is a \<^verbatim>\<open>node_modules\<close> segment; for both
  paths the code gives the message about a matching ignore pattern.
\<close>

theorem createIgnoreResult_segment_counterexample:
  "(\<exists>seg \<in> set (path_segments ''..foo/a.js''). claimed_hidden_segment seg)
   \<and> map message (messages (createIgnoreResult (\<lambda>baseDir file. file) ''..foo/a.js'' ''.''))
     = [pattern_message]
   \<and> pattern_message \<noteq> hidden_message
   \<and> ''node_modules'' \<in> set (path_segments ''lib/node_modules'')
   \<and> \<not> (\<exists>seg \<in> set (path_segments ''lib/node_modules''). claimed_hidden_segment seg)
   \<and> map message (messages (createIgnoreResult (\<lambda>baseDir file. file) ''lib/node_modules'' ''.''))
     = [pattern_message]
   \<and> pattern_message \<noteq> node_modules_message"
  by (simp add: createIgnoreResult_def Let_def isHiddenRegExp_test_def
        isInNodeModulesRegExp_test_def is_separator_def dot_here_def node_modules_here_def
        claimed_hidden_segment_def hidden_message_def node_modules_message_def
        pattern_message_def Let_def)

section \<open>Properties of formatter resolution\<close>

subsection \<open>Sorting by file path\<close>

lemma compare_positive:
  "compareResultsByFilePath x y > 0 \<longleftrightarrow> \<not> filePath x \<le> filePath y"
  by (auto simp: compareResultsByFilePath_def)

lemma insert_by_insort:
  "insert_by compareResultsByFilePath x ys = insort_key filePath x ys"
  by (induction ys) (simp_all add: compare_positive)

lemma js_sort_sort_key: "js_sort compareResultsByFilePath xs = sort_key filePath xs"
  by (simp add: js_sort_def sort_key_def insert_by_insort [abs_def])

subsection \<open>Running a formatter function\<close>

lemma run_formatting_cached:
  "run_formatting eslint rs prog \<lparr>rulesMeta = Value v, lookups = n\<rparr> =
     (answer prog v, \<lparr>rulesMeta = Value v, lookups = n\<rparr>)"
  by (induction prog) (simp_all add: get_rulesMeta_def)

lemma run_formatting_first:
  "run_formatting eslint rs prog \<lparr>rulesMeta = Getter, lookups = n\<rparr> =
     (answer prog (getRulesMetaForResults eslint rs),
      if reads_rulesMeta prog
      then \<lparr>rulesMeta = Value (getRulesMetaForResults eslint rs), lookups = n + 1\<rparr>
      else \<lparr>rulesMeta = Getter, lookups = n\<rparr>)"
  by (cases prog) (simp_all add: get_rulesMeta_def Let_def run_formatting_cached)

lemma wrapper_format_array:
  assumes "deref s results = Some (ResultArray rs)"
  shows "wrapper_format call cwd eslint f s results =
     Inr ((answer (call f (sort_key filePath rs) cwd)
             (getRulesMetaForResults eslint (sort_key filePath rs)),
           if reads_rulesMeta (call f (sort_key filePath rs) cwd) then 1 else 0),
          s[results := ResultArray (sort_key filePath rs)])"
  using assms
  by (simp add: wrapper_format_def Let_def js_sort_sort_key run_formatting_first assign_def)


lemma sort_key_in_place:
  "sorted (map filePath (sort_key filePath rs)) \<and> mset (sort_key filePath rs) = mset rs"
  by simp

lemma filterResult_returns:
  "deref s result = Some (ResultObject r) \<Longrightarrow> \<exists>a s'. filterResult s result p = Inr (a, s')"
  by (simp add: filterResult_def Let_def alloc_def)

lemma filterResult_Inr:
  assumes "filterResult s result p = Inr (a, s')"
  obtains r c where "deref s result = Some (ResultObject r)" and "a = length s"
    and "s' = s @ [c]"
proof -
  from assms obtain r where r: "deref s result = Some (ResultObject r)"
    by (auto simp: filterResult_def split: option.splits cell.splits)
  with assms obtain c where "a = length s" and "s' = s @ [c]"
    by (auto simp: filterResult_def Let_def alloc_def)
  with r that show thesis
    by blast
qed

text \<open>
  Claim C9. \<^verbatim>\<open>resolveFormatter\<close> returns an object with a \<^verbatim>\<open>format\<close> function as it is; for
  a function it returns the wrapper; for anything else it returns what
  \<^verbatim>\<open>eslint.loadFormatter\<close> returns for it. The \<^verbatim>\<open>format\<close> of the wrapper sorts the results by
  file path (the order of \<^verbatim>\<open>compareResultsByFilePath\<close>: the sort is the stable sort by
  \<open>filePath\<close>, a sorted permutation) and returns what the function returns for the
  sorted results, every read of \<^verbatim>\<open>rulesMeta\<close> giving
  \<^verbatim>\<open>eslint.getRulesMetaForResults(results)\<close>; the engine is asked once if the function reads
  \<^verbatim>\<open>rulesMeta\<close>, however often, and not at all if it does not.
\<close>

theorem resolveFormatter_cases:
  "(isObject f \<and> typeof (get_prop f (Name ''format'')) = ''function'' \<longrightarrow>
      resolveFormatter (cwd, eslint) f = Given f)
   \<and> resolveFormatter (cwd, eslint) (JFun n) = Wrapper cwd eslint n
   \<and> (\<not> (isObject f \<and> typeof (get_prop f (Name ''format'')) = ''function'')
        \<and> typeof f \<noteq> ''function'' \<longrightarrow>
      resolveFormatter (cwd, eslint) f = Loaded (loadFormatter eslint f))
   \<and> (deref s results = Some (ResultArray rs) \<longrightarrow>
      wrapper_format call cwd eslint n s results =
        Inr ((answer (call n (sort_key filePath rs) cwd)
                (getRulesMetaForResults eslint (sort_key filePath rs)),
              if reads_rulesMeta (call n (sort_key filePath rs) cwd) then 1 else 0),
             s[results := ResultArray (sort_key filePath rs)]))
   \<and> js_sort compareResultsByFilePath rs = sort_key filePath rs
   \<and> sorted (map filePath (js_sort compareResultsByFilePath rs))
   \<and> mset (js_sort compareResultsByFilePath rs) = mset rs"
proof -
  have "resolveFormatter (cwd, eslint) f = Given f"
    if "isObject f \<and> typeof (get_prop f (Name ''format'')) = ''function''"
    using that by (simp add: resolveFormatter_def)
  moreover have "resolveFormatter (cwd, eslint) (JFun n) = Wrapper cwd eslint n"
    by (simp add: resolveFormatter_def get_prop_def lookup_def)
  moreover have "resolveFormatter (cwd, eslint) f = Loaded (loadFormatter eslint f)"
    if "\<not> (isObject f \<and> typeof (get_prop f (Name ''format'')) = ''function'')
        \<and> typeof f \<noteq> ''function''"
    using that by (cases f) (simp_all add: resolveFormatter_def)
  moreover note wrapper_format_array [of s results rs call cwd eslint n]
    js_sort_sort_key [of rs] sort_key_in_place [of rs]
  ultimately show ?thesis
    by (simp only: simp_thms) blast
qed

theorem resolveFormatter_cases_witness:
  "resolveFormatter (''/cwd'', example_eslint) (JObj [Name ''format'' \<mapsto> JFun 7])
     = Given (JObj [Name ''format'' \<mapsto> JFun 7])
   \<and> resolveFormatter (''/cwd'', example_eslint) (JStr ''stylish'') = Loaded (JStr ''stylish'')
   \<and> wrapper_format example_call ''/cwd'' example_eslint 3
         [ResultArray [example_b, example_a]] 0
     = Inr ((JNum 4, 1), [ResultArray [example_a, example_b]])"
proof -
  have s: "sort_key filePath [example_b, example_a] = [example_a, example_b]"
    by (simp add: example_a_def example_b_def)
  have d: "deref [ResultArray [example_b, example_a]] 0
      = Some (ResultArray [example_b, example_a])"
    by (simp add: deref_def)
  from resolveFormatter_cases
    [of "JObj [Name ''format'' \<mapsto> JFun 7]" "''/cwd''" example_eslint 3
        "[ResultArray [example_b, example_a]]" 0 "[example_b, example_a]" example_call,
      unfolded s]
  have "resolveFormatter (''/cwd'', example_eslint) (JObj [Name ''format'' \<mapsto> JFun 7])
     = Given (JObj [Name ''format'' \<mapsto> JFun 7])"
    and "wrapper_format example_call ''/cwd'' example_eslint 3
         [ResultArray [example_b, example_a]] 0
     = Inr ((JNum 4, 1), [ResultArray [example_a, example_b]])"
    by (simp_all add: d get_prop_def lookup_def example_call_def example_eslint_def)
  moreover from resolveFormatter_cases [of "JStr ''stylish''" "''/cwd''" example_eslint]
  have "resolveFormatter (''/cwd'', example_eslint) (JStr ''stylish'') = Loaded (JStr ''stylish'')"
    by (simp add: example_eslint_def)
  ultimately show ?thesis
    by simp
qed

text \<open>
  Claim C10. The \<^verbatim>\<open>format\<close> of the wrapper sorts the array it is given: after the call the
  cell of that array holds the results sorted by file path, no cell was added and no
  other cell has changed. \<^verbatim>\<open>filterResult\<close>, in contrast, leaves the object it is given as
  it was.
\<close>

theorem wrapper_format_sorts_in_place:
  assumes "deref s results = Some (ResultArray rs)"
  shows "\<exists>out s'.
           wrapper_format call cwd eslint n s results = Inr (out, s')
         \<and> deref s' results = Some (ResultArray (sort_key filePath rs))
         \<and> sorted (map filePath (sort_key filePath rs))
         \<and> mset (sort_key filePath rs) = mset rs
         \<and> length s' = length s
         \<and> (\<forall>b. b \<noteq> results \<longrightarrow> deref s' b = deref s b)
         \<and> (\<forall>b p a s''. filterResult s' b p = Inr (a, s'') \<longrightarrow> deref s'' b = deref s' b)"
proof -
  have lt: "results < length s"
    using assms by (rule deref_Some_less)
  have frame: "deref s'' b = deref s' b"
    if "filterResult s' b p = Inr (a, s'')" for b p a s' s''
  proof -
    from that obtain r c where "deref s' b = Some (ResultObject r)" and "s'' = s' @ [c]"
      by (rule filterResult_Inr)
    then show ?thesis
      by (auto simp: deref_def nth_append split: if_splits)
  qed
  show ?thesis
    unfolding wrapper_format_array [OF assms]
    using lt frame by (auto simp: deref_def)
qed

theorem wrapper_format_sorts_in_place_witness:
  "\<exists>out s'.
     wrapper_format example_call ''/cwd'' example_eslint 3
       [ResultArray [example_b, example_a], ResultObject example_b] 0 = Inr (out, s')
     \<and> deref s' 0 = Some (ResultArray [example_a, example_b])
     \<and> deref s' 1 = Some (ResultObject example_b)
     \<and> length s' = 2
     \<and> (\<exists>a s''. filterResult s' 1 skip_first = Inr (a, s'')
          \<and> deref s'' 1 = Some (ResultObject example_b))"
proof -
  have s: "sort_key filePath [example_b, example_a] = [example_a, example_b]"
    by (simp add: example_a_def example_b_def)
  have d: "deref [ResultArray [example_b, example_a], ResultObject example_b] 0
      = Some (ResultArray [example_b, example_a])"
    by (simp add: deref_def)
  from wrapper_format_sorts_in_place [OF d, of example_call "''/cwd''" example_eslint 3]
  obtain out s' where
    call: "wrapper_format example_call ''/cwd'' example_eslint 3
       [ResultArray [example_b, example_a], ResultObject example_b] 0 = Inr (out, s')" and
    sorted: "deref s' 0 = Some (ResultArray (sort_key filePath [example_b, example_a]))" and
    len: "length s' = length [ResultArray [example_b, example_a], ResultObject example_b]" and
    others: "\<forall>b. b \<noteq> 0 \<longrightarrow>
       deref s' b = deref [ResultArray [example_b, example_a], ResultObject example_b] b" and
    filtering: "\<forall>b p a s''. filterResult s' b p = Inr (a, s'') \<longrightarrow> deref s'' b = deref s' b"
    by blast
  from others [rule_format, of 1]
  have one: "deref s' 1 = Some (ResultObject example_b)"
    by (simp add: deref_def)
  obtain a s'' where f: "filterResult s' 1 skip_first = Inr (a, s'')"
    using filterResult_returns [OF one] by blast
  from filtering [rule_format, OF f] one
  have "deref s'' 1 = Some (ResultObject example_b)"
    by simp
  with f have "\<exists>a s''. filterResult s' 1 skip_first = Inr (a, s'')
      \<and> deref s'' 1 = Some (ResultObject example_b)"
    by blast
  with call sorted len one show ?thesis
    unfolding s by (intro exI [of _ out] exI [of _ s']) simp
qed

end
